theory Spec2Isabelle
  imports Main
begin

section \<open>The custom server entry point (server.js)\<close>

text \<open>
  The program is the CommonJS entry point of a Next.js deployment: it reads three
  environment variables, builds the rendering engine's options, waits for the engine's
  \<^verbatim>\<open>prepare()\<close>, creates an HTTP server around one request handler, listens, and
  installs one \<^verbatim>\<open>shutdown\<close> function on SIGTERM and SIGINT.

  The model follows the file top to bottom. What the file gets from the JavaScript
  runtime and from its libraries (the URL parser, the engine's request handler, the
  outcome of \<^verbatim>\<open>prepare()\<close>, what \<^verbatim>\<open>listen\<close> does with the port, the order in
  which signals, requests and the server's close notification arrive) enters as a
  parameter or as an event, and nothing is assumed about it. Two behaviours of the
  runtime are written out, because what the file achieves depends on them: how a
  response object reacts to \<^verbatim>\<open>statusCode\<close>, \<^verbatim>\<open>write\<close> and \<^verbatim>\<open>end\<close>, and, as one
  transport among others, the port check of \<^verbatim>\<open>listen\<close>.
\<close>

subsection \<open>JavaScript values read by the configuration\<close>

text \<open>
  \<^verbatim>\<open>process.env\<close> maps names to strings; a name that is not set reads as
  \<^verbatim>\<open>undefined\<close>. Strings are modelled as \<^typ>\<open>string\<close>, that is, with characters
  up to code 255.
\<close>

type_synonym env = "string \<rightharpoonup> string"

text \<open>
  \<^verbatim>\<open>v || d\<close> for a value that is a string or \<^verbatim>\<open>undefined\<close>: both
  \<^verbatim>\<open>undefined\<close> and the empty string are falsy, every other string is truthy.
\<close>

definition or_default :: "string option \<Rightarrow> string \<Rightarrow> string" where
  "or_default v d = (case v of None \<Rightarrow> d | Some s \<Rightarrow> if s = [] then d else s)"

text \<open>
  A JavaScript number as \<^verbatim>\<open>parseInt\<close> returns it: not-a-number, or an integer.
  (The integer is the mathematical value of the digits; the runtime rounds it to a
  double, which is the same number up to \<open>2 ^ 53\<close>, and tells \<open>-0\<close> from \<open>0\<close>,
  which are equal as numbers.)
\<close>

datatype jsnum = NaN | Num int

text \<open>
  The white space \<^verbatim>\<open>parseInt\<close> skips, among the characters of \<^typ>\<open>string\<close>:
  TAB, LF, VT, FF, CR, SP and NBSP.
\<close>

definition is_ws :: "char \<Rightarrow> bool" where
  "is_ws c = (of_char c \<in> {9, 10, 11, 12, 13, 32, 160 :: nat})"

definition is_digit :: "char \<Rightarrow> bool" where
  "is_digit c = (48 \<le> (of_char c :: nat) \<and> (of_char c :: nat) \<le> 57)"

definition digit_of :: "char \<Rightarrow> nat" where
  "digit_of c = of_char c - 48"

definition digits_val :: "string \<Rightarrow> nat" where
  "digits_val ds = foldl (\<lambda>a c. 10 * a + digit_of c) 0 ds"

text \<open>
  \<^verbatim>\<open>parseInt(s, 10)\<close>: skip leading white space, take one optional sign, read the
  longest run of decimal digits and ignore whatever follows it; with no digit there the
  result is \<^verbatim>\<open>NaN\<close>.
\<close>

definition strip_sign :: "string \<Rightarrow> int \<times> string" where
  "strip_sign s =
     (case s of
        [] \<Rightarrow> (1, [])
      | c # r \<Rightarrow> if c = CHR ''-'' then (- 1, r) else if c = CHR ''+'' then (1, r) else (1, s))"

definition parseInt10 :: "string \<Rightarrow> jsnum" where
  "parseInt10 s =
     (let (sign, body) = strip_sign (dropWhile is_ws s);
          z = takeWhile is_digit body
      in if z = [] then NaN else Num (sign * int (digits_val z)))"

subsection \<open>Configuration (lines 58 to 66)\<close>

text \<open>\<^verbatim>\<open>const dev = process.env.NODE_ENV !== 'production'\<close>\<close>

definition dev :: "env \<Rightarrow> bool" where
  "dev e = (e ''NODE_ENV'' \<noteq> Some ''production'')"

text \<open>\<^verbatim>\<open>const hostname = process.env.HOSTNAME || '0.0.0.0'\<close>\<close>

definition hostname :: "env \<Rightarrow> string" where
  "hostname e = or_default (e ''HOSTNAME'') ''0.0.0.0''"

text \<open>\<^verbatim>\<open>const port = parseInt(process.env.PORT || '3000', 10)\<close>\<close>

definition port :: "env \<Rightarrow> jsnum" where
  "port e = parseInt10 (or_default (e ''PORT'') ''3000'')"

text \<open>
  The options object given to the rendering engine:
  \<^verbatim>\<open>next({ dev, hostname: dev ? 'localhost' : hostname })\<close>.
\<close>

record next_options =
  opt_dev :: bool
  opt_hostname :: string

definition app_options :: "env \<Rightarrow> next_options" where
  "app_options e =
     \<lparr> opt_dev = dev e,
       opt_hostname = (if dev e then ''localhost'' else hostname e) \<rparr>"

text \<open>
  The arguments of \<^verbatim>\<open>server.listen(port, hostname, ...)\<close>: the address the
  listening socket is bound to.
\<close>

definition listen_port :: "env \<Rightarrow> jsnum" where
  "listen_port e = port e"

definition listen_host :: "env \<Rightarrow> string" where
  "listen_host e = hostname e"

text \<open>The decimal numeral of a natural number, to state what a numeric \<^verbatim>\<open>PORT\<close> is.\<close>

definition digit_char :: "nat \<Rightarrow> char" where
  "digit_char d = char_of (48 + d)"

fun decimal :: "nat \<Rightarrow> string" where
  "decimal n = (if n < 10 then [digit_char n] else decimal (n div 10) @ [digit_char (n mod 10)])"

declare decimal.simps [simp del]

text \<open>A number interpolated into a template string.\<close>

definition show_num :: "jsnum \<Rightarrow> string" where
  "show_num x =
     (case x of
        NaN \<Rightarrow> ''NaN''
      | Num i \<Rightarrow> if i < 0 then ''-'' @ decimal (nat (- i)) else decimal (nat i))"

text \<open>
  The mode as the file itself names it when it logs
  \<^verbatim>\<open>dev ? 'development' : 'production'\<close>.
\<close>

datatype mode = Development | Production

definition mode_of :: "env \<Rightarrow> mode" where
  "mode_of e = (if dev e then Development else Production)"

subsection \<open>The request handler (lines 74 to 84)\<close>

text \<open>
  The request carries the method and the URL. The response object carries the
  \<^verbatim>\<open>statusCode\<close> property and what has gone out to the client so far: the status
  line (once the headers are flushed), the chunks of the body, and whether the response
  has been ended. The HTTP library creates a fresh response, with status 200 and nothing
  sent, for every request.
\<close>

record request =
  http_method :: string
  url :: string

record res =
  statusCode :: nat
  head_sent :: "nat option"
  body_sent :: "string list"
  finished :: bool

definition fresh_res :: res where
  "fresh_res = \<lparr> statusCode = 200, head_sent = None, body_sent = [], finished = False \<rparr>"

text \<open>
  The headers go out once, with the status code the property holds at that moment;
  assigning the property later changes nothing of what was sent.
\<close>

definition flush_head :: "res \<Rightarrow> res" where
  "flush_head r = (case head_sent r of None \<Rightarrow> r\<lparr> head_sent := Some (statusCode r) \<rparr> | Some s \<Rightarrow> r)"

text \<open>\<^verbatim>\<open>res.statusCode = n\<close>\<close>

definition set_status :: "nat \<Rightarrow> res \<Rightarrow> res" where
  "set_status n r = r\<lparr> statusCode := n \<rparr>"

text \<open>
  \<^verbatim>\<open>res.write(data)\<close> and \<^verbatim>\<open>res.end(data)\<close>: the first data flushes the headers;
  on a response that has been ended nothing more is sent.
\<close>

definition write_chunk :: "string \<Rightarrow> res \<Rightarrow> res" where
  "write_chunk d r =
     (if finished r then r else (flush_head r)\<lparr> body_sent := body_sent r @ [d] \<rparr>)"

definition end_with :: "string \<Rightarrow> res \<Rightarrow> res" where
  "end_with d r =
     (if finished r then r
      else (flush_head r)\<lparr> body_sent := body_sent r @ [d], finished := True \<rparr>)"

text \<open>
  The two library calls of the handler are parameters. \<^verbatim>\<open>parse(req.url, true)\<close>
  returns the parsed URL or throws (\<open>Inl\<close>). \<^verbatim>\<open>await handle(req, res, parsedUrl)\<close>
  is the engine's: it makes its calls on the response, in some order, and then either
  completes (\<open>None\<close>) or throws or rejects (\<open>Some err\<close>).
\<close>

datatype res_op = SetStatus nat | Write string | End string

fun apply_op :: "res_op \<Rightarrow> res \<Rightarrow> res" where
  "apply_op (SetStatus n) r = set_status n r"
| "apply_op (Write d) r = write_chunk d r"
| "apply_op (End d) r = end_with d r"

definition apply_ops :: "res_op list \<Rightarrow> res \<Rightarrow> res" where
  "apply_ops ops r = foldl (\<lambda>r' op. apply_op op r') r ops"

type_synonym 'u url_parser = "string \<Rightarrow> string + 'u"
type_synonym 'u engine = "request \<Rightarrow> 'u \<Rightarrow> res_op list \<times> string option"

datatype channel = Log | Error

type_synonym console_line = "channel \<times> string"

text \<open>
  What one run of the handler leaves behind: the response as it stands, the lines it
  logged, and whether its \<^verbatim>\<open>catch\<close> block called \<^verbatim>\<open>end\<close> on a response that had
  been ended already (what the runtime makes of such a call is not the file's to say).
\<close>

record answer =
  response :: res
  logged :: "console_line list"
  late_end :: bool

text \<open>
  The \<^verbatim>\<open>catch\<close> block: one line on the error console, then
  \<^verbatim>\<open>res.statusCode = 500\<close> and \<^verbatim>\<open>res.end('Internal Server Error')\<close>, whatever the
  state of the response.
\<close>

definition on_error :: "string \<Rightarrow> res \<Rightarrow> answer" where
  "on_error err r =
     \<lparr> response = end_with ''Internal Server Error'' (set_status 500 r),
       logged = [(Error, ''Error handling request: '' @ err)],
       late_end = finished r \<rparr>"

definition request_handler ::
  "'u url_parser \<Rightarrow> 'u engine \<Rightarrow> request \<Rightarrow> res \<Rightarrow> answer" where
  "request_handler parse handle rq r =
     (case parse (url rq) of
        Inl err \<Rightarrow> on_error err r
      | Inr parsedUrl \<Rightarrow>
          (case handle rq parsedUrl of
             (ops, None) \<Rightarrow> \<lparr> response = apply_ops ops r, logged = [], late_end = False \<rparr>
           | (ops, Some err) \<Rightarrow> on_error err (apply_ops ops r)))"

subsection \<open>The process\<close>

text \<open>
  How the process ended: \<^verbatim>\<open>process.exit(n)\<close>, or the operating system's default
  action for a signal nobody listens to.
\<close>

datatype status = Code nat | BySignal string

text \<open>
  Everything the file's callbacks can change: whether the HTTP server exists and
  accepts connections, whether the two signal listeners are installed, how often
  \<^verbatim>\<open>server.close\<close> was called (each call registers one close callback), the
  deadlines of the timers armed by \<^verbatim>\<open>setTimeout\<close>, the console, the responses of
  the requests whose handler has returned (each as the handler left it, ended or not),
  how often a \<^verbatim>\<open>catch\<close> block called \<^verbatim>\<open>end\<close> on a response already ended, and the
  exit status once the process has ended. The file keeps no other state; in particular
  it has no variable that counts requests.
\<close>

record proc =
  prepare_calls :: nat
  server :: bool
  listening :: bool
  hooked :: bool
  close_calls :: nat
  timers :: "nat list"
  console :: "console_line list"
  responses :: "res list"
  late_ends :: nat
  exited :: "status option"

definition initial :: proc where
  "initial =
     \<lparr> prepare_calls = 0, server = False, listening = False, hooked = False,
       close_calls = 0, timers = [], console = [], responses = [], late_ends = 0,
       exited = None \<rparr>"

definition say :: "console_line list \<Rightarrow> proc \<Rightarrow> proc" where
  "say ls p = p\<lparr> console := console p @ ls \<rparr>"

definition exit_with :: "nat \<Rightarrow> proc \<Rightarrow> proc" where
  "exit_with n p = p\<lparr> exited := Some (Code n) \<rparr>"

subsection \<open>Startup (lines 72 to 94 and 110 to 116)\<close>

text \<open>
  The promise returned by \<^verbatim>\<open>app.prepare()\<close> stays pending, is fulfilled, or is
  rejected with an error.
\<close>

datatype promise = Pending | Fulfilled | Rejected string

text \<open>
  \<^verbatim>\<open>server.listen(port, hostname, callback)\<close> is the transport's: it throws, or it
  returns and later invokes the callback, with or without an error.
\<close>

datatype listen_outcome = ListenThrows string | ListenCallback "string option"

type_synonym transport = "jsnum \<Rightarrow> string \<Rightarrow> listen_outcome"

text \<open>The \<^verbatim>\<open>.catch\<close> at the end of the chain.\<close>

definition start_failed :: "string \<Rightarrow> proc \<Rightarrow> proc" where
  "start_failed err p = exit_with 1 (say [(Error, ''Error starting server: '' @ err)] p)"

text \<open>The callback given to \<^verbatim>\<open>listen\<close>.\<close>

definition listen_callback :: "env \<Rightarrow> string option \<Rightarrow> proc \<Rightarrow> proc" where
  "listen_callback e err p =
     (case err of
        Some msg \<Rightarrow> exit_with 1 (say [(Error, ''Failed to start server: '' @ msg)] p)
      | None \<Rightarrow>
          say [(Log, ''> Ready on http://''
                       @ (if hostname e = ''0.0.0.0'' then ''localhost'' else hostname e)
                       @ '':'' @ show_num (port e)),
               (Log, ''> Environment: '' @ (if dev e then ''development'' else ''production''))]
            (p\<lparr> listening := True \<rparr>))"

text \<open>
  \<^verbatim>\<open>app.prepare().then(...).catch(...)\<close>. The body of \<^verbatim>\<open>then\<close> runs only once
  the promise is fulfilled: it creates the server, calls \<^verbatim>\<open>listen\<close> and installs
  the signal listeners; an exception thrown there, like a rejection of
  \<^verbatim>\<open>prepare()\<close>, lands in \<^verbatim>\<open>catch\<close>.
\<close>

definition start :: "env \<Rightarrow> promise \<Rightarrow> transport \<Rightarrow> proc" where
  "start e prepared listen =
     (let p = initial\<lparr> prepare_calls := 1 \<rparr>
      in case prepared of
           Pending \<Rightarrow> p
         | Rejected err \<Rightarrow> start_failed err p
         | Fulfilled \<Rightarrow>
             (case listen (listen_port e) (listen_host e) of
                ListenThrows err \<Rightarrow> start_failed err (p\<lparr> server := True \<rparr>)
              | ListenCallback err \<Rightarrow>
                  listen_callback e err (p\<lparr> server := True, hooked := True \<rparr>)))"

subsection \<open>Shutdown (lines 97 to 111) and the event loop\<close>

text \<open>
  \<^verbatim>\<open>shutdown(signal)\<close> at time \<open>now\<close> (in milliseconds): log, call
  \<^verbatim>\<open>server.close\<close> with a callback, arm a timer 10000 ms ahead. The function reads
  no state, so it does the same on every call.
\<close>

definition shutdown :: "nat \<Rightarrow> string \<Rightarrow> proc \<Rightarrow> proc" where
  "shutdown now signal p =
     (say [(Log, signal @ '' received: closing server'')] p)
       \<lparr> listening := False,
         close_calls := close_calls p + 1,
         timers := timers p @ [now + 10000] \<rparr>"

text \<open>The callback given to \<^verbatim>\<open>server.close\<close>.\<close>

definition on_close :: "proc \<Rightarrow> proc" where
  "on_close p = exit_with 0 (say [(Log, ''Server closed'')] p)"

text \<open>The callback given to \<^verbatim>\<open>setTimeout\<close>.\<close>

definition on_timeout :: "proc \<Rightarrow> proc" where
  "on_timeout p = exit_with 1 (say [(Error, ''Forced shutdown after timeout'')] p)"

text \<open>
  The handler is an \<^verbatim>\<open>async\<close> function. In the turn in which the server hands it a
  request (with a fresh response) it runs up to the \<^verbatim>\<open>await\<close>: if the URL parser
  throws, the \<^verbatim>\<open>catch\<close> block answers at once; otherwise the engine has been called
  and the handler is suspended, having changed nothing. It resumes in the turn in which the
  engine's promise settles, and the request is answered then.
\<close>

definition respond :: "answer \<Rightarrow> proc \<Rightarrow> proc" where
  "respond a p =
     (say (logged a) p)
       \<lparr> responses := responses p @ [response a],
         late_ends := late_ends p + (if late_end a then 1 else 0) \<rparr>"

definition on_request :: "'u url_parser \<Rightarrow> 'u engine \<Rightarrow> request \<Rightarrow> proc \<Rightarrow> proc" where
  "on_request parse handle rq p =
     (case parse (url rq) of
        Inl err \<Rightarrow> respond (request_handler parse handle rq fresh_res) p
      | Inr parsedUrl \<Rightarrow> p)"

definition on_settled :: "'u url_parser \<Rightarrow> 'u engine \<Rightarrow> request \<Rightarrow> proc \<Rightarrow> proc" where
  "on_settled parse handle rq p =
     (case parse (url rq) of
        Inl err \<Rightarrow> p
      | Inr parsedUrl \<Rightarrow> respond (request_handler parse handle rq fresh_res) p)"

text \<open>
  The two signals the file listens to:
  \<^verbatim>\<open>process.on('SIGTERM', ...)\<close> and \<^verbatim>\<open>process.on('SIGINT', ...)\<close>.
\<close>

definition listened :: "string \<Rightarrow> bool" where
  "listened s = (s = ''SIGTERM'' \<or> s = ''SIGINT'')"

text \<open>
  What reaches the process from outside: a terminating signal; a request on a connection
  of the server; the settling of the engine's promise for a request; and the server's
  \<^verbatim>\<open>close\<close> notification, which the transport sends once the server has stopped
  listening and its connections have ended. The notification is the only way in which
  this program learns that the server has drained. A signal that has no listener (any
  signal before the listeners are installed, any signal but SIGTERM and SIGINT after)
  takes its default action and ends the process.
\<close>

datatype event = Signal string | Request request | Settled request | Closed

definition dispatch ::
  "'u url_parser \<Rightarrow> 'u engine \<Rightarrow> nat \<Rightarrow> event \<Rightarrow> proc \<Rightarrow> proc" where
  "dispatch parse handle now ev p =
     (case ev of
        Signal s \<Rightarrow>
          if hooked p \<and> listened s then shutdown now s p
          else p\<lparr> exited := Some (BySignal s) \<rparr>
      | Request rq \<Rightarrow> if server p then on_request parse handle rq p else p
      | Settled rq \<Rightarrow> if server p then on_settled parse handle rq p else p
      | Closed \<Rightarrow> if 0 < close_calls p then on_close p else p)"

text \<open>A timer is due at time \<open>now\<close> when its deadline has been reached.\<close>

definition due :: "nat \<Rightarrow> proc \<Rightarrow> bool" where
  "due now p = (\<exists>d \<in> set (timers p). d \<le> now)"

text \<open>
  One turn of the event loop for an event arriving at time \<open>now\<close>: a process that has
  exited runs nothing; a timer that is due fires first; otherwise the event is
  dispatched.
\<close>

definition deliver ::
  "'u url_parser \<Rightarrow> 'u engine \<Rightarrow> nat \<times> event \<Rightarrow> proc \<Rightarrow> proc" where
  "deliver parse handle tev p =
     (if exited p \<noteq> None then p
      else if due (fst tev) p then on_timeout p
      else dispatch parse handle (fst tev) (snd tev) p)"

definition run ::
  "'u url_parser \<Rightarrow> 'u engine \<Rightarrow> (nat \<times> event) list \<Rightarrow> proc \<Rightarrow> proc" where
  "run parse handle evs p = foldl (\<lambda>q tev. deliver parse handle tev q) p evs"

text \<open>When nothing arrives any more, an armed timer still fires.\<close>

definition finish :: "proc \<Rightarrow> proc" where
  "finish p = (if exited p = None \<and> timers p \<noteq> [] then on_timeout p else p)"

definition outcome ::
  "'u url_parser \<Rightarrow> 'u engine \<Rightarrow> (nat \<times> event) list \<Rightarrow> proc \<Rightarrow> status option" where
  "outcome parse handle evs p = exited (finish (run parse handle evs p))"

text \<open>
  The specification's shutdown state, read off the process: the file has no variable
  for it.
\<close>

datatype shutdown_state = Running | Draining | Terminated

definition state_of :: "proc \<Rightarrow> shutdown_state" where
  "state_of p =
     (if exited p \<noteq> None then Terminated
      else if 0 < close_calls p then Draining
      else Running)"

text \<open>
  What holds of every state the program reaches: every call of \<^verbatim>\<open>shutdown\<close>
  registers one close callback and arms one timer, it is only ever called by a signal
  listener, and the listeners are installed after the server was created.
\<close>

definition wf :: "proc \<Rightarrow> bool" where
  "wf p =
     (length (timers p) = close_calls p \<and>
      (0 < close_calls p \<longrightarrow> hooked p) \<and>
      (hooked p \<longrightarrow> server p))"

text \<open>
  The specification's count of requests in flight, read off the history of events: the
  requests handed to the engine whose promise has not settled yet. The file has no
  variable for it either.
\<close>

definition awaited :: "'u url_parser \<Rightarrow> request \<Rightarrow> bool" where
  "awaited parse rq = (case parse (url rq) of Inl err \<Rightarrow> False | Inr u \<Rightarrow> True)"

definition spec_in_flight :: "'u url_parser \<Rightarrow> (nat \<times> event) list \<Rightarrow> nat" where
  "spec_in_flight parse evs =
     length (filter (\<lambda>tev. case snd tev of Request rq \<Rightarrow> awaited parse rq | _ \<Rightarrow> False) evs)
     - length (filter (\<lambda>tev. case snd tev of Settled rq \<Rightarrow> awaited parse rq | _ \<Rightarrow> False) evs)"

text \<open>Concrete parameters for the examples.\<close>

definition parse_ok :: "string url_parser" where
  "parse_ok u = Inr u"

definition engine_ok :: "string engine" where
  "engine_ok rq u = ([End ''<html>ok</html>''], None)"

definition engine_failing :: "string engine" where
  "engine_failing rq u =
     (if url rq = ''/boom'' then ([], Some ''render failed'')
      else if url rq = ''/half'' then ([Write ''half''], Some ''render failed'')
      else if url rq = ''/partial'' then ([End ''partial''], Some ''render failed'')
      else engine_ok rq u)"

definition listen_ok :: transport where
  "listen_ok n h = ListenCallback None"

text \<open>
  The port check of the runtime's \<^verbatim>\<open>listen\<close>, as its documentation gives it: a port
  that is not an integer from 0 to 65535 makes the call throw
  (\<^verbatim>\<open>ERR_SOCKET_BAD_PORT\<close>); port 0 asks the operating system for any free port. The
  binding itself is taken to succeed.
\<close>

definition node_listen :: transport where
  "node_listen n h =
     (case n of
        NaN \<Rightarrow> ListenThrows ''ERR_SOCKET_BAD_PORT''
      | Num i \<Rightarrow>
          if 0 \<le> i \<and> i \<le> 65535 then ListenCallback None
          else ListenThrows ''ERR_SOCKET_BAD_PORT'')"

section \<open>Properties\<close>

subsection \<open>Reading a decimal numeral\<close>



lemma of_char_digit_char: "d < 10 \<Longrightarrow> (of_char (digit_char d) :: nat) = 48 + d"
  by (simp add: digit_char_def)

lemma is_digit_digit_char: "d < 10 \<Longrightarrow> is_digit (digit_char d)"
  by (simp add: is_digit_def of_char_digit_char)

lemma digit_of_digit_char: "d < 10 \<Longrightarrow> digit_of (digit_char d) = d"
  by (simp add: digit_of_def of_char_digit_char)

lemma decimal_digits: "\<forall>c \<in> set (decimal n). is_digit c"
proof (induction n rule: decimal.induct)
  case (1 n)
  show ?case
  proof (cases "n < 10")
    case True
    then show ?thesis by (subst decimal.simps) (simp add: is_digit_digit_char)
  next
    case False
    have "decimal n = decimal (n div 10) @ [digit_char (n mod 10)]"
      using False by (subst decimal.simps) simp
    moreover have "\<forall>c \<in> set (decimal (n div 10)). is_digit c" using 1 False by simp
    ultimately show ?thesis by (simp add: is_digit_digit_char)
  qed
qed

lemma decimal_nonempty: "decimal n \<noteq> []"
  by (subst decimal.simps) simp

lemma digits_val_snoc: "digits_val (ds @ [c]) = 10 * digits_val ds + digit_of c"
  by (simp add: digits_val_def)

lemma digits_val_decimal: "digits_val (decimal n) = n"
proof (induction n rule: decimal.induct)
  case (1 n)
  show ?case
  proof (cases "n < 10")
    case True
    then show ?thesis by (subst decimal.simps) (simp add: digits_val_def digit_of_digit_char)
  next
    case False
    have "decimal n = decimal (n div 10) @ [digit_char (n mod 10)]"
      using False by (subst decimal.simps) simp
    moreover have "digits_val (decimal (n div 10)) = n div 10" using 1 False by simp
    ultimately show ?thesis by (simp add: digits_val_snoc digit_of_digit_char)
  qed
qed

lemma digit_not_ws: "is_digit c \<Longrightarrow> \<not> is_ws c"
  by (auto simp: is_digit_def is_ws_def)

lemma digit_not_sign: "is_digit c \<Longrightarrow> c \<noteq> CHR ''-'' \<and> c \<noteq> CHR ''+''"
  by (auto simp: is_digit_def)

lemma parseInt10_digits:
  assumes "s \<noteq> []" and "\<forall>c \<in> set s. is_digit c"
  shows "parseInt10 s = Num (int (digits_val s))"
proof -
  obtain c r where s: "s = c # r" using assms(1) by (cases s) auto
  have c: "is_digit c" using assms(2) s by simp
  have "dropWhile is_ws s = s" using c s by (simp add: digit_not_ws)
  moreover have "strip_sign s = (1, s)"
    using digit_not_sign [OF c] s by (simp add: strip_sign_def)
  moreover have "takeWhile is_digit s = s" using assms(2) by (simp add: takeWhile_eq_all_conv)
  ultimately show ?thesis using assms(1) unfolding parseInt10_def Let_def by (simp del: takeWhile_eq_all_conv)
qed

lemma strip_sign_subset: "set (snd (strip_sign s)) \<subseteq> set s"
  by (auto simp: strip_sign_def split: list.splits)

lemma parseInt10_no_digit:
  assumes "\<forall>c \<in> set s. \<not> is_digit c"
  shows "parseInt10 s = NaN"
proof -
  obtain sg body where sb: "strip_sign (dropWhile is_ws s) = (sg, body)"
    by (cases "strip_sign (dropWhile is_ws s)")
  have "set body \<subseteq> set (dropWhile is_ws s)"
    using strip_sign_subset [of "dropWhile is_ws s"] sb by simp
  also have "\<dots> \<subseteq> set s" by (rule set_dropWhileD [THEN subsetI]) 
  finally have "\<forall>c \<in> set body. \<not> is_digit c" using assms by blast
  then have "takeWhile is_digit body = []" by (cases body) auto
  then show ?thesis using sb by (simp add: parseInt10_def)
qed

lemma or_default_nonempty: "s \<noteq> [] \<Longrightarrow> or_default (Some s) d = s"
  by (simp add: or_default_def)


lemma parseInt10_3000: "parseInt10 ''3000'' = Num 3000"
  by (simp add: parseInt10_def strip_sign_def is_ws_def is_digit_def digits_val_def digit_of_def)

subsection \<open>The event loop\<close>

lemmas callback_defs =
  say_def exit_with_def shutdown_def on_close_def on_timeout_def respond_def
  on_request_def on_settled_def

lemma run_Nil: "run parse handle [] p = p"
  by (simp add: run_def)

lemma run_Cons: "run parse handle (tev # evs) p = run parse handle evs (deliver parse handle tev p)"
  by (simp add: run_def)

lemma deliver_exited: "exited p \<noteq> None \<Longrightarrow> deliver parse handle tev p = p"
  by (simp add: deliver_def)

lemma run_exited: "exited p \<noteq> None \<Longrightarrow> run parse handle evs p = p"
  by (induction evs) (simp_all add: run_Nil run_Cons deliver_exited)

lemma respond_fields:
  "exited (respond a p) = exited p"
  "timers (respond a p) = timers p"
  "close_calls (respond a p) = close_calls p"
  "hooked (respond a p) = hooked p"
  "server (respond a p) = server p"
  "listening (respond a p) = listening p"
  "prepare_calls (respond a p) = prepare_calls p"
  "responses (respond a p) = responses p @ [response a]"
  "console (respond a p) = console p @ logged a"
  "late_ends (respond a p) = late_ends p + (if late_end a then 1 else 0)"
  by (simp_all add: respond_def say_def)

lemma due_respond: "due now (respond a p) = due now p"
  by (simp add: due_def respond_fields)

lemma handler_turn_fields:
  "exited (on_request parse handle rq p) = exited p"
  "timers (on_request parse handle rq p) = timers p"
  "close_calls (on_request parse handle rq p) = close_calls p"
  "hooked (on_request parse handle rq p) = hooked p"
  "server (on_request parse handle rq p) = server p"
  "listening (on_request parse handle rq p) = listening p"
  "exited (on_settled parse handle rq p) = exited p"
  "timers (on_settled parse handle rq p) = timers p"
  "close_calls (on_settled parse handle rq p) = close_calls p"
  "hooked (on_settled parse handle rq p) = hooked p"
  "server (on_settled parse handle rq p) = server p"
  "listening (on_settled parse handle rq p) = listening p"
  by (simp_all add: on_request_def on_settled_def respond_fields split: sum.splits)

lemma due_handler_turn:
  "due now (on_request parse handle rq p) = due now p"
  "due now (on_settled parse handle rq p) = due now p"
  by (simp_all add: due_def handler_turn_fields)

lemma shutdown_fields:
  "exited (shutdown now s p) = exited p"
  "timers (shutdown now s p) = timers p @ [now + 10000]"
  "close_calls (shutdown now s p) = close_calls p + 1"
  "hooked (shutdown now s p) = hooked p"
  "server (shutdown now s p) = server p"
  "listening (shutdown now s p) = False"
  "responses (shutdown now s p) = responses p"
  "console (shutdown now s p) = console p @ [(Log, s @ '' received: closing server'')]"
  by (simp_all add: shutdown_def say_def)

lemma due_shutdown: "due now' (shutdown now s p) = (due now' p \<or> now + 10000 \<le> now')"
  by (auto simp: due_def shutdown_fields)

lemma on_timeout_fields:
  "exited (on_timeout p) = Some (Code 1)"
  "console (on_timeout p) = console p @ [(Error, ''Forced shutdown after timeout'')]"
  "responses (on_timeout p) = responses p"
  by (simp_all add: on_timeout_def say_def exit_with_def)

lemma on_close_fields:
  "exited (on_close p) = Some (Code 0)"
  "console (on_close p) = console p @ [(Log, ''Server closed'')]"
  "responses (on_close p) = responses p"
  "timers (on_close p) = timers p"
  by (simp_all add: on_close_def say_def exit_with_def)

lemma wf_deliver: "wf p \<Longrightarrow> wf (deliver parse handle tev p)"
  by (cases "snd tev")
    (auto simp: wf_def deliver_def dispatch_def callback_defs split: sum.splits)

lemma wf_run: "wf p \<Longrightarrow> wf (run parse handle evs p)"
  by (induction evs arbitrary: p) (simp_all add: run_Nil run_Cons wf_deliver)

lemma start_cases:
  "start e Pending listen = initial\<lparr> prepare_calls := 1 \<rparr>"
  "start e (Rejected err) listen = start_failed err (initial\<lparr> prepare_calls := 1 \<rparr>)"
  "listen (listen_port e) (listen_host e) = ListenThrows err \<Longrightarrow>
     start e Fulfilled listen = start_failed err (initial\<lparr> prepare_calls := 1, server := True \<rparr>)"
  "listen (listen_port e) (listen_host e) = ListenCallback cb \<Longrightarrow>
     start e Fulfilled listen
       = listen_callback e cb (initial\<lparr> prepare_calls := 1, server := True, hooked := True \<rparr>)"
  by (simp_all add: start_def Let_def)

lemma wf_start: "wf (start e prepared listen)"
proof (cases prepared)
  case Pending
  then show ?thesis by (simp add: start_cases wf_def initial_def)
next
  case (Rejected err)
  then show ?thesis
    by (simp add: start_cases wf_def initial_def start_failed_def say_def exit_with_def)
next
  case Fulfilled
  show ?thesis
  proof (cases "listen (listen_port e) (listen_host e)")
    case (ListenThrows err)
    with Fulfilled show ?thesis
      by (simp add: start_cases wf_def initial_def start_failed_def say_def exit_with_def)
  next
    case (ListenCallback cb)
    with Fulfilled show ?thesis
      by (cases cb)
        (simp_all add: start_cases wf_def initial_def listen_callback_def say_def exit_with_def)
  qed
qed


lemma wf_Draining:
  "wf p \<Longrightarrow> state_of p = Draining \<Longrightarrow>
     exited p = None \<and> hooked p \<and> server p \<and> 0 < close_calls p \<and> timers p \<noteq> []"
  by (auto simp: wf_def state_of_def split: if_splits)

subsection \<open>Configuration\<close>

text \<open>
  C3, as the specification states it, fails: with \<^verbatim>\<open>NODE_ENV\<close> absent the resolved
  mode is development, not production.
\<close>

theorem mode_absent_counterexample:
  "\<not> (\<forall>e. e ''NODE_ENV'' = None \<longrightarrow> mode_of e = Production)"
proof
  assume "\<forall>e. e ''NODE_ENV'' = None \<longrightarrow> mode_of e = Production"
  then have "mode_of (map_of []) = Production" by simp
  then show False by (simp add: mode_of_def dev_def)
qed

text \<open>
  C3, amended: the mode is production exactly when \<^verbatim>\<open>NODE_ENV\<close> is the string
  \<^verbatim>\<open>production\<close>; for any other value, and when the variable is absent, the mode is
  development, and that is also the \<^verbatim>\<open>dev\<close> flag the rendering engine receives.
\<close>

theorem mode_production_iff:
  "(e ''NODE_ENV'' = Some ''production'' \<longrightarrow>
      mode_of e = Production \<and> \<not> opt_dev (app_options e)) \<and>
   (e ''NODE_ENV'' \<noteq> Some ''production'' \<longrightarrow>
      mode_of e = Development \<and> opt_dev (app_options e))"
  by (simp add: mode_of_def dev_def app_options_def)

theorem mode_production_iff_witness:
  "map_of [(''NODE_ENV'', ''production'')] ''NODE_ENV'' = Some ''production'' \<and>
   mode_of (map_of [(''NODE_ENV'', ''production'')]) = Production \<and>
   map_of [(''NODE_ENV'', ''test'')] ''NODE_ENV'' \<noteq> Some ''production'' \<and>
   mode_of (map_of [(''NODE_ENV'', ''test'')]) = Development"
  using mode_production_iff [of "map_of [(''NODE_ENV'', ''production'')]"]
    mode_production_iff [of "map_of [(''NODE_ENV'', ''test'')]"]
  by simp

text \<open>
  C2, as the specification states it, fails: in development mode with \<^verbatim>\<open>HOSTNAME\<close>
  unset the socket is bound to \<^verbatim>\<open>0.0.0.0\<close>.
\<close>

theorem dev_bind_host_counterexample:
  "\<not> (\<forall>e. mode_of e = Development \<longrightarrow> listen_host e = ''localhost'')"
proof
  assume "\<forall>e. mode_of e = Development \<longrightarrow> listen_host e = ''localhost''"
  moreover have "mode_of (map_of []) = Development" by (simp add: mode_of_def dev_def)
  ultimately have "listen_host (map_of []) = ''localhost''" by blast
  then show False by (simp add: listen_host_def hostname_def or_default_def)
qed

text \<open>
  C2, amended: in development mode the host name given to the rendering engine is
  \<^verbatim>\<open>localhost\<close> whatever \<^verbatim>\<open>HOSTNAME\<close> is; the listening socket is bound, in
  development mode as in production, to \<^verbatim>\<open>HOSTNAME\<close> when that is set and not empty,
  and to \<^verbatim>\<open>0.0.0.0\<close> otherwise.
\<close>

theorem dev_host:
  "(mode_of e = Development \<longrightarrow> opt_hostname (app_options e) = ''localhost'') \<and>
   (\<forall>h. e ''HOSTNAME'' = Some h \<and> h \<noteq> [] \<longrightarrow> listen_host e = h) \<and>
   (e ''HOSTNAME'' = None \<or> e ''HOSTNAME'' = Some [] \<longrightarrow> listen_host e = ''0.0.0.0'')"
proof -
  have "mode_of e = Development \<longrightarrow> opt_hostname (app_options e) = ''localhost''"
    by (simp add: mode_of_def app_options_def split: if_splits)
  moreover have "\<forall>h. e ''HOSTNAME'' = Some h \<and> h \<noteq> [] \<longrightarrow> listen_host e = h"
    by (simp add: listen_host_def hostname_def or_default_def)
  moreover have "e ''HOSTNAME'' = None \<or> e ''HOSTNAME'' = Some [] \<longrightarrow> listen_host e = ''0.0.0.0''"
    by (auto simp: listen_host_def hostname_def or_default_def)
  ultimately show ?thesis by blast
qed

theorem dev_host_witness:
  "mode_of (map_of [(''HOSTNAME'', ''example.org'')]) = Development \<and>
   opt_hostname (app_options (map_of [(''HOSTNAME'', ''example.org'')])) = ''localhost'' \<and>
   listen_host (map_of [(''HOSTNAME'', ''example.org'')]) = ''example.org'' \<and>
   mode_of (map_of []) = Development \<and>
   listen_host (map_of []) = ''0.0.0.0''"
proof -
  have m: "mode_of (map_of [(''HOSTNAME'', ''example.org'')]) = Development"
    by (simp add: mode_of_def dev_def)
  have n: "mode_of (map_of []) = Development"
    by (simp add: mode_of_def dev_def)
  show ?thesis
    using m n dev_host [of "map_of [(''HOSTNAME'', ''example.org'')]"] dev_host [of "map_of []"]
    by simp
qed

lemma parseInt10_decimal_prefix:
  assumes "\<forall>c r. rest = c # r \<longrightarrow> \<not> is_digit c"
  shows "parseInt10 (decimal n @ rest) = Num (int n)"
proof -
  obtain c cs where d: "decimal n = c # cs" using decimal_nonempty [of n] by (cases "decimal n") auto
  have c: "is_digit c" using decimal_digits [of n] d by simp
  have "dropWhile is_ws (decimal n @ rest) = decimal n @ rest"
    using c d by (simp add: digit_not_ws)
  moreover have "strip_sign (decimal n @ rest) = (1, decimal n @ rest)"
    using digit_not_sign [OF c] d by (simp add: strip_sign_def)
  moreover have "takeWhile is_digit rest = []" using assms by (cases rest) auto
  then have "takeWhile is_digit (decimal n @ rest) = decimal n"
    using decimal_digits [of n] by (simp add: takeWhile_append2)
  ultimately show ?thesis
    using decimal_nonempty [of n] unfolding parseInt10_def Let_def
    by (simp add: digits_val_decimal)
qed

lemma start_bound:
  assumes "listen (listen_port e) (listen_host e) = ListenCallback None"
  shows "listening (start e Fulfilled listen) \<and> exited (start e Fulfilled listen) = None"
  using assms by (simp add: start_cases listen_callback_def say_def initial_def)

lemma start_thrown:
  assumes "listen (listen_port e) (listen_host e) = ListenThrows err"
  shows "exited (start e Fulfilled listen) = Some (Code 1) \<and> \<not> listening (start e Fulfilled listen)"
  using assms by (simp add: start_cases start_failed_def say_def exit_with_def initial_def)

text \<open>
  C4, as the specification states it, fails in its last part. \<^verbatim>\<open>PORT=0\<close>,
  \<^verbatim>\<open>PORT=8086abc\<close> and \<^verbatim>\<open>PORT=1e4\<close> are present and are not integers in 1..65535, yet
  nothing fails: they resolve to 0, 8086 and 1, and with the runtime's own port check the
  server goes on to listen.
\<close>

theorem port_unparsable_counterexample:
  "port (map_of [(''PORT'', ''0'')]) = Num 0 \<and>
   listening (start (map_of [(''PORT'', ''0'')]) Fulfilled node_listen) \<and>
   exited (start (map_of [(''PORT'', ''0'')]) Fulfilled node_listen) = None \<and>
   port (map_of [(''PORT'', ''8086abc'')]) = Num 8086 \<and>
   listening (start (map_of [(''PORT'', ''8086abc'')]) Fulfilled node_listen) \<and>
   exited (start (map_of [(''PORT'', ''8086abc'')]) Fulfilled node_listen) = None \<and>
   port (map_of [(''PORT'', ''1e4'')]) = Num 1 \<and>
   listening (start (map_of [(''PORT'', ''1e4'')]) Fulfilled node_listen) \<and>
   exited (start (map_of [(''PORT'', ''1e4'')]) Fulfilled node_listen) = None"
proof -
  have p: "port (map_of [(''PORT'', ''0'')]) = Num 0"
    "port (map_of [(''PORT'', ''8086abc'')]) = Num 8086"
    "port (map_of [(''PORT'', ''1e4'')]) = Num 1"
    by (simp_all add: port_def or_default_def parseInt10_def strip_sign_def is_ws_def
        is_digit_def digits_val_def digit_of_def)
  have l: "node_listen (listen_port (map_of [(''PORT'', ''0'')])) h = ListenCallback None"
    "node_listen (listen_port (map_of [(''PORT'', ''8086abc'')])) h = ListenCallback None"
    "node_listen (listen_port (map_of [(''PORT'', ''1e4'')])) h = ListenCallback None" for h
    unfolding listen_port_def p by (simp_all add: node_listen_def)
  show ?thesis
    using p
      start_bound [where listen = node_listen and e = "map_of [(''PORT'', ''0'')]", OF l(1)]
      start_bound [where listen = node_listen and e = "map_of [(''PORT'', ''8086abc'')]", OF l(2)]
      start_bound [where listen = node_listen and e = "map_of [(''PORT'', ''1e4'')]", OF l(3)]
    by simp
qed

text \<open>
  C4, amended: if \<^verbatim>\<open>PORT\<close> is the decimal numeral of an integer in 1..65535 the
  resolved port is that integer; if \<^verbatim>\<open>PORT\<close> is absent it is 3000. Resolving the
  configuration never fails by itself: a \<^verbatim>\<open>PORT\<close> that starts with a decimal numeral
  resolves to that number, whatever follows the digits, a \<^verbatim>\<open>PORT\<close> without any digit
  resolves to \<^verbatim>\<open>NaN\<close>, and the value goes to \<^verbatim>\<open>listen\<close> as it is. Startup fails
  (exit status 1, the socket never bound) when \<^verbatim>\<open>listen\<close> throws for that value,
  which the runtime's port check does for \<^verbatim>\<open>NaN\<close> and for numbers above 65535; when
  \<^verbatim>\<open>listen\<close> accepts the value, as that check does for every number from 0 to 65535,
  port 0 included, the server listens.
\<close>

theorem port_resolution:
  "(1 \<le> n \<and> n \<le> 65535 \<and> e ''PORT'' = Some (decimal n) \<longrightarrow> port e = Num (int n)) \<and>
   (e ''PORT'' = None \<longrightarrow> port e = Num 3000) \<and>
   (e ''PORT'' = Some (decimal n @ rest) \<and> (\<forall>c r. rest = c # r \<longrightarrow> \<not> is_digit c) \<longrightarrow>
      port e = Num (int n) \<and>
      (n \<le> 65535 \<longrightarrow>
         listening (start e Fulfilled node_listen) \<and>
         exited (start e Fulfilled node_listen) = None) \<and>
      (65535 < n \<longrightarrow>
         exited (start e Fulfilled node_listen) = Some (Code 1) \<and>
         \<not> listening (start e Fulfilled node_listen))) \<and>
   (e ''PORT'' = Some s \<and> s \<noteq> [] \<and> (\<forall>c \<in> set s. \<not> is_digit c) \<longrightarrow>
      port e = NaN \<and>
      exited (start e Fulfilled node_listen) = Some (Code 1) \<and>
      \<not> listening (start e Fulfilled node_listen)) \<and>
   listen_port e = port e \<and>
   (listen (listen_port e) (listen_host e) = ListenThrows err \<longrightarrow>
      exited (start e Fulfilled listen) = Some (Code 1) \<and>
      \<not> listening (start e Fulfilled listen)) \<and>
   (listen (listen_port e) (listen_host e) = ListenCallback None \<longrightarrow>
      listening (start e Fulfilled listen) \<and> exited (start e Fulfilled listen) = None)"
proof -
  have pre: "port e = Num (int n)"
    if "e ''PORT'' = Some (decimal n @ rest)" "\<forall>c r. rest = c # r \<longrightarrow> \<not> is_digit c"
    using that parseInt10_decimal_prefix [of rest n] decimal_nonempty [of n]
    by (simp add: port_def or_default_def)
  have a: "port e = Num (int n)" if "e ''PORT'' = Some (decimal n)"
    using that parseInt10_digits [OF decimal_nonempty decimal_digits, of n]
    by (simp add: port_def or_default_nonempty [OF decimal_nonempty] digits_val_decimal)
  have b: "port e = Num 3000" if "e ''PORT'' = None"
    using that parseInt10_3000 by (simp add: port_def or_default_def)
  have c: "port e = NaN" if "e ''PORT'' = Some s" "s \<noteq> []" "\<forall>c \<in> set s. \<not> is_digit c"
    using that parseInt10_no_digit [of s] by (simp add: port_def or_default_def)
  have low: "listening (start e Fulfilled node_listen) \<and>
             exited (start e Fulfilled node_listen) = None"
    if "port e = Num (int n)" "n \<le> 65535"
    using that by (intro start_bound) (simp add: listen_port_def node_listen_def)
  have high: "exited (start e Fulfilled node_listen) = Some (Code 1) \<and>
              \<not> listening (start e Fulfilled node_listen)"
    if "port e = Num (int n)" "65535 < n"
    using that
    by (intro start_thrown [where err = "''ERR_SOCKET_BAD_PORT''"])
      (simp add: listen_port_def node_listen_def)
  have nan: "exited (start e Fulfilled node_listen) = Some (Code 1) \<and>
             \<not> listening (start e Fulfilled node_listen)"
    if "port e = NaN"
    using that
    by (intro start_thrown [where err = "''ERR_SOCKET_BAD_PORT''"])
      (simp add: listen_port_def node_listen_def)
  have thrown: "listen (listen_port e) (listen_host e) = ListenThrows err \<longrightarrow>
      exited (start e Fulfilled listen) = Some (Code 1) \<and>
      \<not> listening (start e Fulfilled listen)"
    using start_thrown [of listen e err] by blast
  have bound: "listen (listen_port e) (listen_host e) = ListenCallback None \<longrightarrow>
      listening (start e Fulfilled listen) \<and> exited (start e Fulfilled listen) = None"
    using start_bound [of listen e] by blast
  have lp: "listen_port e = port e" by (simp add: listen_port_def)
  show ?thesis
    using a b c pre low high nan thrown bound lp by blast
qed

theorem port_resolution_witness:
  "1 \<le> (8080::nat) \<and> (8080::nat) \<le> 65535 \<and>
   map_of [(''PORT'', ''8080'')] ''PORT'' = Some (decimal 8080) \<and>
   port (map_of [(''PORT'', ''8080'')]) = Num 8080 \<and>
   map_of [] ''PORT'' = (None :: string option) \<and>
   port (map_of []) = Num 3000 \<and>
   port (map_of [(''PORT'', ''8086abc'')]) = Num 8086 \<and>
   listening (start (map_of [(''PORT'', ''8086abc'')]) Fulfilled node_listen) \<and>
   port (map_of [(''PORT'', ''70000'')]) = Num 70000 \<and>
   exited (start (map_of [(''PORT'', ''70000'')]) Fulfilled node_listen) = Some (Code 1) \<and>
   port (map_of [(''PORT'', ''http'')]) = NaN \<and>
   exited (start (map_of [(''PORT'', ''http'')]) Fulfilled node_listen) = Some (Code 1) \<and>
   \<not> listening (start (map_of [(''PORT'', ''http'')]) Fulfilled node_listen) \<and>
   node_listen (listen_port (map_of [(''PORT'', ''http'')])) (listen_host (map_of [(''PORT'', ''http'')]))
     = ListenThrows ''ERR_SOCKET_BAD_PORT'' \<and>
   listen_ok (listen_port (map_of [])) (listen_host (map_of [])) = ListenCallback None \<and>
   listening (start (map_of []) Fulfilled listen_ok)"
proof -
  have d: "decimal 8080 = ''8080''" "decimal 8086 = ''8086''" "decimal 70000 = ''70000''"
    by (simp_all add: decimal.simps digit_char_def char_of_eq_iff)
  have n: "\<forall>c \<in> set ''http''. \<not> is_digit c" by (simp add: is_digit_def)
  have r: "\<forall>c r. ''abc'' = c # r \<longrightarrow> \<not> is_digit c" by (simp add: is_digit_def)
  have l: "listen_ok (listen_port (map_of [])) (listen_host (map_of [])) = ListenCallback None"
    by (simp add: listen_ok_def)
  have t: "node_listen (listen_port (map_of [(''PORT'', ''http'')]))
             (listen_host (map_of [(''PORT'', ''http'')])) = ListenThrows ''ERR_SOCKET_BAD_PORT''"
    by (simp add: node_listen_def listen_port_def port_def or_default_def parseInt10_def
        strip_sign_def is_ws_def is_digit_def)
  show ?thesis
    using port_resolution [of 8080 "map_of [(''PORT'', ''8080'')]" "[]" "[]" listen_ok "[]"]
      port_resolution [of 1 "map_of []" "[]" "[]" listen_ok "[]"]
      port_resolution [of 8086 "map_of [(''PORT'', ''8086abc'')]" "''abc''" "[]" listen_ok "[]"]
      port_resolution [of 70000 "map_of [(''PORT'', ''70000'')]" "[]" "[]" listen_ok "[]"]
      port_resolution [of 1 "map_of [(''PORT'', ''http'')]" "[]" "''http''" node_listen
        "''ERR_SOCKET_BAD_PORT''"]
      d n r l t
    by simp
qed

text \<open>
  C10: an empty \<^verbatim>\<open>PORT\<close> resolves to 3000, exactly as an absent one does.
\<close>

theorem port_empty_is_default:
  assumes "e ''PORT'' = Some []"
  shows "port e = Num 3000 \<and> port e = port (e(''PORT'' := None))"
  using assms parseInt10_3000 by (simp add: port_def or_default_def)

theorem port_empty_is_default_witness:
  "map_of [(''PORT'', [])] ''PORT'' = Some [] \<and> port (map_of [(''PORT'', [])]) = Num 3000"
proof -
  have h: "map_of [(''PORT'', [])] ''PORT'' = Some []" by simp
  show ?thesis using h port_empty_is_default [of "map_of [(''PORT'', [])]"] by simp
qed

subsection \<open>Startup\<close>

lemma idle_deliver:
  assumes "\<not> server p \<and> \<not> hooked p \<and> close_calls p = 0 \<and> timers p = [] \<and> responses p = []"
  shows "\<not> server (deliver parse handle tev p) \<and> \<not> hooked (deliver parse handle tev p) \<and>
         close_calls (deliver parse handle tev p) = 0 \<and> timers (deliver parse handle tev p) = [] \<and>
         responses (deliver parse handle tev p) = []"
  using assms by (cases "snd tev") (simp_all add: deliver_def dispatch_def due_def)

lemma idle_run:
  assumes "\<not> server p \<and> \<not> hooked p \<and> close_calls p = 0 \<and> timers p = [] \<and> responses p = []"
  shows "responses (run parse handle evs p) = []"
  using assms
proof (induction evs arbitrary: p)
  case Nil
  then show ?case by (simp add: run_Nil)
next
  case (Cons tev evs)
  show ?case
    unfolding run_Cons by (rule Cons.IH) (rule idle_deliver [OF Cons.prems])
qed

text \<open>
  C9: the server is created and listens only in the continuation of a fulfilled
  \<^verbatim>\<open>prepare()\<close>, so no request is ever served unless \<^verbatim>\<open>prepare()\<close> has
  completed; and when \<^verbatim>\<open>prepare()\<close> is rejected the process logs the error and has
  exited with status 1, having called \<^verbatim>\<open>prepare()\<close> once and created no server.
\<close>

theorem prepare_before_serving:
  "(server (start e prepared listen) \<or> listening (start e prepared listen)
      \<longrightarrow> prepared = Fulfilled) \<and>
   (prepared \<noteq> Fulfilled
      \<longrightarrow> responses (run parse handle evs (start e prepared listen)) = []) \<and>
   (prepared = Rejected err
      \<longrightarrow> exited (start e prepared listen) = Some (Code 1) \<and>
          prepare_calls (start e prepared listen) = 1 \<and>
          \<not> server (start e prepared listen) \<and>
          \<not> listening (start e prepared listen) \<and>
          console (start e prepared listen) = [(Error, ''Error starting server: '' @ err)])"
proof -
  have idle: "\<not> server q \<and> \<not> hooked q \<and> close_calls q = 0 \<and> timers q = [] \<and> responses q = []"
    if "prepared \<noteq> Fulfilled" and "q = start e prepared listen" for q
    using that
    by (cases prepared)
      (simp_all add: start_cases initial_def start_failed_def say_def exit_with_def)
  have a: "server (start e prepared listen) \<or> listening (start e prepared listen)
             \<longrightarrow> prepared = Fulfilled"
    by (cases prepared)
      (simp_all add: start_cases initial_def start_failed_def say_def exit_with_def)
  have b: "prepared \<noteq> Fulfilled
             \<longrightarrow> responses (run parse handle evs (start e prepared listen)) = []"
    using idle idle_run [of "start e prepared listen" parse handle evs] by blast
  have c: "prepared = Rejected err
      \<longrightarrow> exited (start e prepared listen) = Some (Code 1) \<and>
          prepare_calls (start e prepared listen) = 1 \<and>
          \<not> server (start e prepared listen) \<and>
          \<not> listening (start e prepared listen) \<and>
          console (start e prepared listen) = [(Error, ''Error starting server: '' @ err)]"
    by (simp add: start_cases initial_def start_failed_def say_def exit_with_def)
  from a b c show ?thesis by blast
qed

theorem prepare_before_serving_witness:
  "listening (start (map_of []) Fulfilled listen_ok) \<and>
   Rejected ''no build'' \<noteq> Fulfilled \<and>
   responses (run parse_ok engine_ok [(0, Request \<lparr> http_method = ''GET'', url = ''/'' \<rparr>)]
      (start (map_of []) (Rejected ''no build'') listen_ok)) = [] \<and>
   exited (start (map_of []) (Rejected ''no build'') listen_ok) = Some (Code 1)"
proof -
  have l: "listening (start (map_of []) Fulfilled listen_ok)"
    by (simp add: start_def listen_ok_def listen_callback_def say_def initial_def)
  show ?thesis
    using l
      prepare_before_serving [of "map_of []" Fulfilled listen_ok parse_ok engine_ok "[]" "[]"]
      prepare_before_serving [of "map_of []" "Rejected ''no build''" listen_ok parse_ok engine_ok
        "[(0, Request \<lparr> http_method = ''GET'', url = ''/'' \<rparr>)]" "''no build''"]
    by simp
qed

subsection \<open>Requests\<close>

text \<open>Nothing of the body goes out, and no response is ended, before its headers.\<close>

lemma apply_op_coherent:
  assumes "head_sent r = None \<longrightarrow> body_sent r = [] \<and> \<not> finished r"
  shows "head_sent (apply_op op r) = None \<longrightarrow>
           body_sent (apply_op op r) = [] \<and> \<not> finished (apply_op op r)"
  using assms
  by (cases op)
    (auto simp: set_status_def write_chunk_def end_with_def flush_head_def split: option.splits)

lemma apply_ops_coherent:
  assumes "head_sent r = None \<longrightarrow> body_sent r = [] \<and> \<not> finished r"
  shows "head_sent (apply_ops ops r) = None \<longrightarrow>
           body_sent (apply_ops ops r) = [] \<and> \<not> finished (apply_ops ops r)"
  using assms
proof (induction ops arbitrary: r)
  case Nil
  then show ?case by (simp add: apply_ops_def)
next
  case (Cons op ops)
  have "apply_ops (op # ops) r = apply_ops ops (apply_op op r)" by (simp add: apply_ops_def)
  then show ?case using Cons.IH [OF apply_op_coherent [OF Cons.prems]] by simp
qed

lemma fresh_coherent:
  "head_sent (apply_ops ops fresh_res) = None \<longrightarrow>
     body_sent (apply_ops ops fresh_res) = [] \<and> \<not> finished (apply_ops ops fresh_res)"
  by (rule apply_ops_coherent) (simp add: fresh_res_def)

text \<open>What the \<^verbatim>\<open>catch\<close> block achieves depends on how far the response has got.\<close>

lemma on_error_unsent:
  assumes "head_sent r = None" and "body_sent r = []" and "\<not> finished r"
  shows "head_sent (response (on_error err r)) = Some 500"
    and "body_sent (response (on_error err r)) = [''Internal Server Error'']"
    and "finished (response (on_error err r))"
    and "\<not> late_end (on_error err r)"
  using assms by (simp_all add: on_error_def end_with_def set_status_def flush_head_def)

lemma on_error_started:
  assumes "head_sent r = Some s" and "\<not> finished r"
  shows "head_sent (response (on_error err r)) = Some s"
    and "body_sent (response (on_error err r)) = body_sent r @ [''Internal Server Error'']"
    and "finished (response (on_error err r))"
    and "\<not> late_end (on_error err r)"
  using assms by (simp_all add: on_error_def end_with_def set_status_def flush_head_def)

lemma on_error_ended:
  assumes "finished r"
  shows "head_sent (response (on_error err r)) = head_sent r"
    and "body_sent (response (on_error err r)) = body_sent r"
    and "finished (response (on_error err r))"
    and "late_end (on_error err r)"
  using assms by (simp_all add: on_error_def end_with_def set_status_def)

lemma on_error_logged: "logged (on_error err r) = [(Error, ''Error handling request: '' @ err)]"
  by (simp add: on_error_def)

lemma request_handler_fails:
  assumes "(parse (url rq) = Inl err \<and> r0 = fresh_res) \<or>
           (\<exists>u ops. parse (url rq) = Inr u \<and> handle rq u = (ops, Some err) \<and>
              r0 = apply_ops ops fresh_res)"
  shows "request_handler parse handle rq fresh_res = on_error err r0"
    and "head_sent r0 = None \<longrightarrow> body_sent r0 = [] \<and> \<not> finished r0"
proof -
  show "request_handler parse handle rq fresh_res = on_error err r0"
    using assms by (auto simp: request_handler_def)
  show "head_sent r0 = None \<longrightarrow> body_sent r0 = [] \<and> \<not> finished r0"
    using assms fresh_coherent [of "[]"] fresh_coherent by (auto simp: apply_ops_def)
qed

lemma due_mono: "due now p \<Longrightarrow> now \<le> now' \<Longrightarrow> due now' p"
  by (auto simp: due_def intro: order_trans)

lemma run_turn:
  assumes "exited p = None" and "server p" and "\<not> due now p"
  shows "run parse handle ((now, Request rq) # evs) p
           = run parse handle evs (on_request parse handle rq p)"
    and "run parse handle ((now, Settled rq) # evs) p
           = run parse handle evs (on_settled parse handle rq p)"
  using assms by (simp_all add: run_Cons deliver_def dispatch_def)

text \<open>A request from its arrival to the settling of the engine: the handler has run once.\<close>

lemma run_request:
  assumes "exited p = None" and "server p" and "\<not> due now p" and "\<not> due now' p"
  shows "run parse handle ((now, Request rq) # (now', Settled rq) # evs) p
           = run parse handle evs (respond (request_handler parse handle rq fresh_res) p)"
proof (cases "parse (url rq)")
  case (Inl err)
  then show ?thesis
    using assms
    by (simp add: run_turn handler_turn_fields due_handler_turn)
      (simp add: on_request_def on_settled_def)
next
  case (Inr u)
  then show ?thesis
    using assms
    by (simp add: run_turn handler_turn_fields due_handler_turn)
      (simp add: on_request_def on_settled_def)
qed

text \<open>
  C5, as the specification states it, fails: an engine that has ended the response
  with the body \<^verbatim>\<open>partial\<close> and then rejects leaves the client with status 200 and that
  body; the status 500 set by the \<^verbatim>\<open>catch\<close> block is never sent, and neither is the
  generic body.
\<close>

theorem request_failure_counterexample:
  "engine_failing \<lparr> http_method = ''GET'', url = ''/partial'' \<rparr> ''/partial''
     = ([End ''partial''], Some ''render failed'') \<and>
   responses (run parse_ok engine_failing
      [(0, Request \<lparr> http_method = ''GET'', url = ''/partial'' \<rparr>),
       (1, Settled \<lparr> http_method = ''GET'', url = ''/partial'' \<rparr>)]
      (start (map_of []) Fulfilled listen_ok))
     = [\<lparr> statusCode = 500, head_sent = Some 200, body_sent = [''partial''], finished = True \<rparr>]"
  by (simp add: run_def deliver_def dispatch_def due_def on_request_def on_settled_def
      respond_def request_handler_def on_error_def apply_ops_def end_with_def set_status_def
      flush_head_def parse_ok_def engine_failing_def fresh_res_def
      say_def start_def listen_ok_def listen_callback_def initial_def)

text \<open>
  C5, amended: when the URL parser or the engine throws while one request is handled,
  the handler logs one line on the error console, sets the status code to 500 and ends
  the response with \<^verbatim>\<open>Internal Server Error\<close>. If nothing of the response had been
  sent, the client gets status 500 and exactly that body. If the engine had already
  started the response, the status already sent stands and the fixed body is appended to
  what was sent. If the engine had already ended the response, nothing more is sent.
  Unless the response had been ended already, nothing else happens to the process: it has
  not exited, the server is as it was, and a request that follows, like one that was in
  flight meanwhile, is handled exactly as the handler handles it on its own.
\<close>

theorem request_failure_contained:
  assumes alive: "exited p = None" "server p"
    and fails: "(parse (url rq) = Inl err \<and> r0 = fresh_res) \<or>
                (\<exists>u ops. parse (url rq) = Inr u \<and> handle rq u = (ops, Some err) \<and>
                   r0 = apply_ops ops fresh_res)"
    and times: "t1 \<le> t2" "t2 \<le> t3" "t3 \<le> t4" "\<not> due t4 p"
  shows "(head_sent r0 = None \<longrightarrow>
            head_sent (last (responses (run parse handle [(t1, Request rq), (t2, Settled rq)] p)))
              = Some 500 \<and>
            body_sent (last (responses (run parse handle [(t1, Request rq), (t2, Settled rq)] p)))
              = [''Internal Server Error''] \<and>
            finished (last (responses (run parse handle [(t1, Request rq), (t2, Settled rq)] p)))) \<and>
         (\<forall>s. head_sent r0 = Some s \<and> \<not> finished r0 \<longrightarrow>
            head_sent (last (responses (run parse handle [(t1, Request rq), (t2, Settled rq)] p)))
              = Some s \<and>
            body_sent (last (responses (run parse handle [(t1, Request rq), (t2, Settled rq)] p)))
              = body_sent r0 @ [''Internal Server Error''] \<and>
            finished (last (responses (run parse handle [(t1, Request rq), (t2, Settled rq)] p)))) \<and>
         (finished r0 \<longrightarrow>
            head_sent (last (responses (run parse handle [(t1, Request rq), (t2, Settled rq)] p)))
              = head_sent r0 \<and>
            body_sent (last (responses (run parse handle [(t1, Request rq), (t2, Settled rq)] p)))
              = body_sent r0 \<and>
            late_ends (run parse handle [(t1, Request rq), (t2, Settled rq)] p) = late_ends p + 1) \<and>
         statusCode (last (responses (run parse handle [(t1, Request rq), (t2, Settled rq)] p)))
           = 500 \<and>
         console (run parse handle [(t1, Request rq), (t2, Settled rq)] p)
           = console p @ [(Error, ''Error handling request: '' @ err)] \<and>
         (\<not> finished r0 \<longrightarrow>
            exited (run parse handle [(t1, Request rq), (t2, Settled rq)] p) = None \<and>
            server (run parse handle [(t1, Request rq), (t2, Settled rq)] p) \<and>
            listening (run parse handle [(t1, Request rq), (t2, Settled rq)] p) = listening p \<and>
            late_ends (run parse handle [(t1, Request rq), (t2, Settled rq)] p) = late_ends p \<and>
            responses (run parse handle
                [(t1, Request rq), (t2, Settled rq), (t3, Request rq'), (t4, Settled rq')] p)
              = responses p @ [response (request_handler parse handle rq fresh_res),
                               response (request_handler parse handle rq' fresh_res)] \<and>
            (\<forall>u. parse (url rq') = Inr u \<longrightarrow>
               responses (run parse handle
                  [(t1, Request rq'), (t2, Request rq), (t3, Settled rq), (t4, Settled rq')] p)
                = responses p @ [response (request_handler parse handle rq fresh_res),
                                 response (request_handler parse handle rq' fresh_res)]))"
proof -
  let ?R = "request_handler parse handle rq fresh_res"
  let ?R' = "request_handler parse handle rq' fresh_res"
  let ?q = "run parse handle [(t1, Request rq), (t2, Settled rq)] p"
  have nd: "\<not> due t1 p" "\<not> due t2 p" "\<not> due t3 p" "\<not> due t4 p"
    using times due_mono [of _ p t4] by (meson order_trans)+
  note h = request_handler_fails [where parse = parse and handle = handle, OF fails]
  have one: "?q = respond (on_error err r0) p"
    using run_request [OF alive nd(1,2), of parse handle rq "[]"] by (simp add: run_Nil h(1))
  have lst: "last (responses ?q) = response (on_error err r0)"
    by (simp add: one respond_fields)
  have unsent: "head_sent (last (responses ?q)) = Some 500 \<and>
      body_sent (last (responses ?q)) = [''Internal Server Error''] \<and>
      finished (last (responses ?q))" if "head_sent r0 = None"
    using that h(2) on_error_unsent [of r0 err] by (simp add: lst)
  have started: "head_sent (last (responses ?q)) = Some s \<and>
      body_sent (last (responses ?q)) = body_sent r0 @ [''Internal Server Error''] \<and>
      finished (last (responses ?q))" if "head_sent r0 = Some s" "\<not> finished r0" for s
    using that on_error_started [of r0 s err] by (simp add: lst)
  have ended: "head_sent (last (responses ?q)) = head_sent r0 \<and>
      body_sent (last (responses ?q)) = body_sent r0 \<and>
      late_ends ?q = late_ends p + 1" if "finished r0"
    using that on_error_ended [of r0 err] by (simp add: lst) (simp add: one respond_fields)
  have code: "statusCode (last (responses ?q)) = 500"
    by (simp add: lst on_error_def end_with_def set_status_def flush_head_def
        split: option.splits)
  have cons: "console ?q = console p @ [(Error, ''Error handling request: '' @ err)]"
    by (simp add: one respond_fields on_error_logged)
  have still: "exited ?q = None" "server ?q" "listening ?q = listening p"
    using alive by (simp_all add: one respond_fields)
  have none_late: "late_ends ?q = late_ends p" if "\<not> finished r0"
    using that by (simp add: one respond_fields on_error_def)
  have two: "responses (run parse handle
      [(t1, Request rq), (t2, Settled rq), (t3, Request rq'), (t4, Settled rq')] p)
      = responses p @ [response ?R, response ?R']"
    using alive nd
    by (simp add: run_request respond_fields due_respond run_Nil)
  have three: "responses (run parse handle
      [(t1, Request rq'), (t2, Request rq), (t3, Settled rq), (t4, Settled rq')] p)
      = responses p @ [response ?R, response ?R']" if "parse (url rq') = Inr u" for u
  proof -
    have "run parse handle
      [(t1, Request rq'), (t2, Request rq), (t3, Settled rq), (t4, Settled rq')] p
      = run parse handle [(t2, Request rq), (t3, Settled rq), (t4, Settled rq')]
          (on_request parse handle rq' p)"
      by (rule run_turn(1) [OF alive nd(1)])
    also have "on_request parse handle rq' p = p" using that by (simp add: on_request_def)
    also have "run parse handle [(t2, Request rq), (t3, Settled rq), (t4, Settled rq')] p
      = run parse handle [(t4, Settled rq')] (respond ?R p)"
      by (rule run_request [OF alive nd(2,3)])
    also have "\<dots> = respond ?R' (respond ?R p)"
      using alive nd that
      by (simp add: run_turn(2) respond_fields due_respond run_Nil on_settled_def)
    finally show ?thesis by (simp add: respond_fields)
  qed
  from unsent started ended code cons still none_late two three show ?thesis by blast
qed

theorem request_failure_contained_witness:
  "head_sent (last (responses (run parse_ok engine_failing
      [(0, Request \<lparr> http_method = ''GET'', url = ''/boom'' \<rparr>),
       (1, Settled \<lparr> http_method = ''GET'', url = ''/boom'' \<rparr>)]
      (start (map_of []) Fulfilled listen_ok)))) = Some 500 \<and>
   body_sent (last (responses (run parse_ok engine_failing
      [(0, Request \<lparr> http_method = ''GET'', url = ''/boom'' \<rparr>),
       (1, Settled \<lparr> http_method = ''GET'', url = ''/boom'' \<rparr>)]
      (start (map_of []) Fulfilled listen_ok)))) = [''Internal Server Error''] \<and>
   exited (run parse_ok engine_failing
      [(0, Request \<lparr> http_method = ''GET'', url = ''/boom'' \<rparr>),
       (1, Settled \<lparr> http_method = ''GET'', url = ''/boom'' \<rparr>)]
      (start (map_of []) Fulfilled listen_ok)) = None \<and>
   responses (run parse_ok engine_failing
      [(0, Request \<lparr> http_method = ''GET'', url = ''/boom'' \<rparr>),
       (1, Settled \<lparr> http_method = ''GET'', url = ''/boom'' \<rparr>),
       (2, Request \<lparr> http_method = ''GET'', url = ''/'' \<rparr>),
       (3, Settled \<lparr> http_method = ''GET'', url = ''/'' \<rparr>)]
      (start (map_of []) Fulfilled listen_ok))
     = [\<lparr> statusCode = 500, head_sent = Some 500, body_sent = [''Internal Server Error''],
          finished = True \<rparr>,
        \<lparr> statusCode = 200, head_sent = Some 200, body_sent = [''<html>ok</html>''],
          finished = True \<rparr>] \<and>
   head_sent (last (responses (run parse_ok engine_failing
      [(0, Request \<lparr> http_method = ''GET'', url = ''/half'' \<rparr>),
       (1, Settled \<lparr> http_method = ''GET'', url = ''/half'' \<rparr>)]
      (start (map_of []) Fulfilled listen_ok)))) = Some 200 \<and>
   body_sent (last (responses (run parse_ok engine_failing
      [(0, Request \<lparr> http_method = ''GET'', url = ''/half'' \<rparr>),
       (1, Settled \<lparr> http_method = ''GET'', url = ''/half'' \<rparr>)]
      (start (map_of []) Fulfilled listen_ok)))) = [''half'', ''Internal Server Error''] \<and>
   late_ends (run parse_ok engine_failing
      [(0, Request \<lparr> http_method = ''GET'', url = ''/partial'' \<rparr>),
       (1, Settled \<lparr> http_method = ''GET'', url = ''/partial'' \<rparr>)]
      (start (map_of []) Fulfilled listen_ok)) = 1"
proof -
  let ?p = "start (map_of []) Fulfilled listen_ok"
  have s: "exited ?p = None" "server ?p" "timers ?p = []" "responses ?p = []" "late_ends ?p = 0"
    by (simp_all add: start_def listen_ok_def listen_callback_def say_def initial_def)
  have d: "\<not> due 3 ?p" using s(3) by (simp add: due_def)
  have f: "(parse_ok (url \<lparr> http_method = ''GET'', url = ''/boom'' \<rparr>) = Inl ''render failed''
             \<and> apply_ops [] fresh_res = fresh_res) \<or>
      (\<exists>u ops. parse_ok (url \<lparr> http_method = ''GET'', url = ''/boom'' \<rparr>) = Inr u \<and>
         engine_failing \<lparr> http_method = ''GET'', url = ''/boom'' \<rparr> u
           = (ops, Some ''render failed'') \<and> apply_ops [] fresh_res = apply_ops ops fresh_res)"
    by (simp add: parse_ok_def engine_failing_def)
  have g: "(parse_ok (url \<lparr> http_method = ''GET'', url = ''/partial'' \<rparr>) = Inl ''render failed''
             \<and> apply_ops [End ''partial''] fresh_res = fresh_res) \<or>
      (\<exists>u ops. parse_ok (url \<lparr> http_method = ''GET'', url = ''/partial'' \<rparr>) = Inr u \<and>
         engine_failing \<lparr> http_method = ''GET'', url = ''/partial'' \<rparr> u
           = (ops, Some ''render failed'') \<and>
         apply_ops [End ''partial''] fresh_res = apply_ops ops fresh_res)"
    by (simp add: parse_ok_def engine_failing_def)
  have k: "(parse_ok (url \<lparr> http_method = ''GET'', url = ''/half'' \<rparr>) = Inl ''render failed''
             \<and> apply_ops [Write ''half''] fresh_res = fresh_res) \<or>
      (\<exists>u ops. parse_ok (url \<lparr> http_method = ''GET'', url = ''/half'' \<rparr>) = Inr u \<and>
         engine_failing \<lparr> http_method = ''GET'', url = ''/half'' \<rparr> u
           = (ops, Some ''render failed'') \<and>
         apply_ops [Write ''half''] fresh_res = apply_ops ops fresh_res)"
    by (simp add: parse_ok_def engine_failing_def)
  have r0: "head_sent (apply_ops [] fresh_res) = None" "\<not> finished (apply_ops [] fresh_res)"
    "finished (apply_ops [End ''partial''] fresh_res)"
    "head_sent (apply_ops [Write ''half''] fresh_res) = Some 200"
    "\<not> finished (apply_ops [Write ''half''] fresh_res)"
    "body_sent (apply_ops [Write ''half''] fresh_res) = [''half'']"
    by (simp_all add: apply_ops_def fresh_res_def end_with_def write_chunk_def flush_head_def)
  have r1: "response (request_handler parse_ok engine_failing
                  \<lparr> http_method = ''GET'', url = ''/boom'' \<rparr> fresh_res)
            = \<lparr> statusCode = 500, head_sent = Some 500, body_sent = [''Internal Server Error''],
                finished = True \<rparr>"
    by (simp add: request_handler_def parse_ok_def engine_failing_def on_error_def
        apply_ops_def end_with_def set_status_def flush_head_def fresh_res_def)
  have r2: "response (request_handler parse_ok engine_failing
                  \<lparr> http_method = ''GET'', url = ''/'' \<rparr> fresh_res)
            = \<lparr> statusCode = 200, head_sent = Some 200, body_sent = [''<html>ok</html>''],
                finished = True \<rparr>"
    by (simp add: request_handler_def parse_ok_def engine_failing_def engine_ok_def
        apply_ops_def end_with_def flush_head_def fresh_res_def)
  have le: "(0::nat) \<le> 1" "(1::nat) \<le> 2" "(2::nat) \<le> 3" by simp_all
  note a = request_failure_contained [where parse = parse_ok and handle = engine_failing
        and rq' = "\<lparr> http_method = ''GET'', url = ''/'' \<rparr>", OF s(1) s(2) f le d]
  note b = request_failure_contained [where parse = parse_ok and handle = engine_failing
        and rq' = "\<lparr> http_method = ''GET'', url = ''/'' \<rparr>", OF s(1) s(2) g le d]
  note c = request_failure_contained [where parse = parse_ok and handle = engine_failing
        and rq' = "\<lparr> http_method = ''GET'', url = ''/'' \<rparr>", OF s(1) s(2) k le d]
  show ?thesis
    using a b c r0 s(4,5) r1 r2 by simp
qed

text \<open>
  C8, as the specification states it, fails: the handler registers nothing. Once a
  request has been handed to the handler and the engine has been called, the process is
  exactly as it was before the request, while by the specification's count one request
  is in flight.
\<close>

theorem handler_counts_nothing_counterexample:
  "spec_in_flight parse_ok [(0, Request \<lparr> http_method = ''GET'', url = ''/'' \<rparr>)] = 1 \<and>
   deliver parse_ok engine_ok (0, Request \<lparr> http_method = ''GET'', url = ''/'' \<rparr>)
     (start (map_of []) Fulfilled listen_ok)
   = start (map_of []) Fulfilled listen_ok"
  by (simp add: spec_in_flight_def awaited_def deliver_def dispatch_def due_def on_request_def
      parse_ok_def start_def listen_ok_def listen_callback_def say_def initial_def)

text \<open>
  C8, amended: the Connection Handler keeps no count of requests in flight; it registers
  and deregisters nothing. While the engine works on a request the process is as it was
  before the request arrived, and when the handler has returned, the shutdown state, the
  close callbacks, the timers and the listeners are as before. Whether the drain is
  complete is not decided by requests: in the draining state the close callback ends the
  process with status 0 without looking at any request, be one in flight or not, and
  without the close notification the process exits with status 1 at the deadline even
  though every request has been handled.
\<close>

theorem handler_changes_only_response:
  assumes "exited p = None" and "server p" and "now \<le> now'" and "\<not> due now' p"
  shows "(\<forall>u. parse (url rq) = Inr u \<longrightarrow> deliver parse handle (now, Request rq) p = p) \<and>
         state_of (run parse handle [(now, Request rq), (now', Settled rq)] p) = state_of p \<and>
         close_calls (run parse handle [(now, Request rq), (now', Settled rq)] p) = close_calls p \<and>
         timers (run parse handle [(now, Request rq), (now', Settled rq)] p) = timers p \<and>
         hooked (run parse handle [(now, Request rq), (now', Settled rq)] p) = hooked p \<and>
         listening (run parse handle [(now, Request rq), (now', Settled rq)] p) = listening p \<and>
         (state_of p = Draining \<longrightarrow>
            exited (run parse handle [(now, Request rq), (now', Closed)] p) = Some (Code 0)) \<and>
         (state_of p = Draining \<and> wf p \<longrightarrow>
            outcome parse handle [(now, Request rq), (now', Settled rq)] p = Some (Code 1))"
proof -
  let ?q = "run parse handle [(now, Request rq), (now', Settled rq)] p"
  have nd: "\<not> due now p" using assms(3,4) due_mono by blast
  have a: "deliver parse handle (now, Request rq) p = p" if "parse (url rq) = Inr u" for u
    using that assms(1,2) nd by (simp add: deliver_def dispatch_def on_request_def)
  have b: "?q = respond (request_handler parse handle rq fresh_res) p"
    using run_request [OF assms(1,2) nd assms(4), of parse handle rq "[]"] by (simp add: run_Nil)
  have d: "state_of ?q = state_of p" by (simp add: b state_of_def respond_fields)
  have f: "close_calls ?q = close_calls p" "timers ?q = timers p" "hooked ?q = hooked p"
    "listening ?q = listening p"
    by (simp_all add: b respond_fields)
  have c: "exited (run parse handle [(now, Request rq), (now', Closed)] p) = Some (Code 0)"
    if "state_of p = Draining"
  proof -
    have "0 < close_calls p" using that by (simp add: state_of_def split: if_splits)
    then show ?thesis
      using assms(1,2,4) nd
      by (simp add: run_turn(1) run_Cons run_Nil deliver_def dispatch_def handler_turn_fields
          due_handler_turn on_close_fields)
  qed
  have o: "outcome parse handle [(now, Request rq), (now', Settled rq)] p = Some (Code 1)"
    if "state_of p = Draining" "wf p"
  proof -
    have "timers p \<noteq> []" using wf_Draining [OF that(2,1)] by simp
    then show ?thesis
      using assms(1) by (simp add: outcome_def finish_def b respond_fields on_timeout_fields)
  qed
  from a d f c o show ?thesis by blast
qed

theorem handler_changes_only_response_witness:
  "deliver parse_ok engine_failing (0, Request \<lparr> http_method = ''GET'', url = ''/boom'' \<rparr>)
      (start (map_of []) Fulfilled listen_ok) = start (map_of []) Fulfilled listen_ok \<and>
   state_of (run parse_ok engine_failing
      [(0, Request \<lparr> http_method = ''GET'', url = ''/boom'' \<rparr>),
       (1, Settled \<lparr> http_method = ''GET'', url = ''/boom'' \<rparr>)]
      (start (map_of []) Fulfilled listen_ok)) = Running \<and>
   state_of (run parse_ok engine_ok [(0, Signal ''SIGTERM'')]
      (start (map_of []) Fulfilled listen_ok)) = Draining \<and>
   exited (run parse_ok engine_ok
      [(5, Request \<lparr> http_method = ''GET'', url = ''/'' \<rparr>), (6, Closed)]
      (run parse_ok engine_ok [(0, Signal ''SIGTERM'')]
        (start (map_of []) Fulfilled listen_ok))) = Some (Code 0) \<and>
   outcome parse_ok engine_ok
      [(5, Request \<lparr> http_method = ''GET'', url = ''/'' \<rparr>),
       (6, Settled \<lparr> http_method = ''GET'', url = ''/'' \<rparr>)]
      (run parse_ok engine_ok [(0, Signal ''SIGTERM'')]
        (start (map_of []) Fulfilled listen_ok)) = Some (Code 1)"
proof -
  let ?p = "start (map_of []) Fulfilled listen_ok"
  let ?d = "run parse_ok engine_ok [(0, Signal ''SIGTERM'')] ?p"
  have s: "exited ?p = None" "server ?p" "timers ?p = []" "close_calls ?p = 0"
    by (simp_all add: start_def listen_ok_def listen_callback_def say_def initial_def)
  have dp: "\<not> due 1 ?p" using s(3) by (simp add: due_def)
  have le: "(0::nat) \<le> 1" "(5::nat) \<le> 6" by simp_all
  have r: "state_of ?p = Running" using s(1) s(4) by (simp add: state_of_def)
  have u: "parse_ok (url \<lparr> http_method = ''GET'', url = ''/boom'' \<rparr>) = Inr ''/boom''"
    by (simp add: parse_ok_def)
  have ds: "exited ?d = None" "server ?d" "timers ?d = [10000]" "close_calls ?d = 1"
    by (simp_all add: run_def deliver_def dispatch_def due_def listened_def shutdown_def say_def
        start_def listen_ok_def listen_callback_def initial_def)
  have dd: "\<not> due 6 ?d" using ds(3) by (simp add: due_def)
  have dr: "state_of ?d = Draining" using ds(1) ds(4) by (simp add: state_of_def)
  have dw: "wf ?d" by (rule wf_run [OF wf_start])
  note t = handler_changes_only_response [where parse = parse_ok and handle = engine_failing
      and rq = "\<lparr> http_method = ''GET'', url = ''/boom'' \<rparr>", OF s(1) s(2) le(1) dp]
  note t' = handler_changes_only_response [where parse = parse_ok and handle = engine_ok
      and rq = "\<lparr> http_method = ''GET'', url = ''/'' \<rparr>", OF ds(1) ds(2) le(2) dd]
  from t u have "deliver parse_ok engine_failing
      (0, Request \<lparr> http_method = ''GET'', url = ''/boom'' \<rparr>) ?p = ?p" by blast
  moreover from t r have "state_of (run parse_ok engine_failing
      [(0, Request \<lparr> http_method = ''GET'', url = ''/boom'' \<rparr>),
       (1, Settled \<lparr> http_method = ''GET'', url = ''/boom'' \<rparr>)] ?p) = Running"
    by simp
  moreover from t' dr have "exited (run parse_ok engine_ok
      [(5, Request \<lparr> http_method = ''GET'', url = ''/'' \<rparr>), (6, Closed)] ?d) = Some (Code 0)"
    by blast
  moreover from t' dr dw have "outcome parse_ok engine_ok
      [(5, Request \<lparr> http_method = ''GET'', url = ''/'' \<rparr>),
       (6, Settled \<lparr> http_method = ''GET'', url = ''/'' \<rparr>)] ?d = Some (Code 1)"
    by blast
  ultimately show ?thesis using dr by simp
qed

subsection \<open>Shutdown\<close>

text \<open>
  C6, as the specification states it, fails. A request arrives and is handled, then
  SIGTERM arrives at time 10: nothing is in flight from then on, well before the timer's
  deadline 10010. The transport sends no close notification (as when the client keeps its
  connection open), and the process ends with status 1 at the deadline, not with
  status 0.
\<close>

theorem clean_exit_counterexample:
  "spec_in_flight parse_ok
     [(0, Request \<lparr> http_method = ''GET'', url = ''/'' \<rparr>),
      (5, Settled \<lparr> http_method = ''GET'', url = ''/'' \<rparr>),
      (10, Signal ''SIGTERM'')] = 0 \<and>
   state_of (run parse_ok engine_ok
     [(0, Request \<lparr> http_method = ''GET'', url = ''/'' \<rparr>),
      (5, Settled \<lparr> http_method = ''GET'', url = ''/'' \<rparr>),
      (10, Signal ''SIGTERM'')]
     (start (map_of []) Fulfilled listen_ok)) = Draining \<and>
   timers (run parse_ok engine_ok
     [(0, Request \<lparr> http_method = ''GET'', url = ''/'' \<rparr>),
      (5, Settled \<lparr> http_method = ''GET'', url = ''/'' \<rparr>),
      (10, Signal ''SIGTERM'')]
     (start (map_of []) Fulfilled listen_ok)) = [10010] \<and>
   outcome parse_ok engine_ok
     [(0, Request \<lparr> http_method = ''GET'', url = ''/'' \<rparr>),
      (5, Settled \<lparr> http_method = ''GET'', url = ''/'' \<rparr>),
      (10, Signal ''SIGTERM'')]
     (start (map_of []) Fulfilled listen_ok) = Some (Code 1)"
  by (simp add: spec_in_flight_def awaited_def outcome_def finish_def on_timeout_def exit_with_def
      run_def deliver_def dispatch_def due_def listened_def shutdown_def state_of_def
      on_request_def on_settled_def respond_def parse_ok_def
      say_def start_def listen_ok_def listen_callback_def initial_def)

text \<open>
  C6, amended: in the draining state, when the transport's close notification (the
  callback given to \<^verbatim>\<open>server.close\<close>) arrives at a time at which no timer is due yet,
  the process logs \<^verbatim>\<open>Server closed\<close> and exits with status 0. The program does not
  cancel the grace timer: it stays armed, and it cannot fire any more only because the
  process has ended, so that whatever arrives later nothing runs and the exit status stays
  0. That no request is in flight is not enough: when the last request has been handled
  and no close notification follows, the timer fires and the process exits with status 1.
\<close>

theorem clean_exit:
  assumes "state_of p = Draining" and "\<not> due now p"
  shows "state_of (deliver parse handle (now, Closed) p) = Terminated \<and>
         exited (deliver parse handle (now, Closed) p) = Some (Code 0) \<and>
         console (deliver parse handle (now, Closed) p) = console p @ [(Log, ''Server closed'')] \<and>
         timers (deliver parse handle (now, Closed) p) = timers p \<and>
         run parse handle evs (deliver parse handle (now, Closed) p)
           = deliver parse handle (now, Closed) p \<and>
         outcome parse handle evs (deliver parse handle (now, Closed) p) = Some (Code 0) \<and>
         (wf p \<longrightarrow> outcome parse handle [(now, Settled rq)] p = Some (Code 1))"
proof -
  let ?q = "deliver parse handle (now, Closed) p"
  have p: "exited p = None" "0 < close_calls p"
    using assms(1) by (simp_all add: state_of_def split: if_splits)
  have q: "?q = on_close p"
    using p assms(2) by (simp add: deliver_def dispatch_def)
  have e: "exited ?q = Some (Code 0)" by (simp add: q on_close_fields)
  then have r: "run parse handle evs ?q = ?q" by (simp add: run_exited)
  have "finish ?q = ?q" using e by (simp add: finish_def)
  then have o: "outcome parse handle evs ?q = Some (Code 0)"
    using e r by (simp add: outcome_def)
  have c: "console ?q = console p @ [(Log, ''Server closed'')]"
    by (simp add: q on_close_fields)
  have k: "timers ?q = timers p" by (simp add: q on_close_fields)
  have t: "state_of ?q = Terminated" using e by (simp add: state_of_def)
  have f: "outcome parse handle [(now, Settled rq)] p = Some (Code 1)" if "wf p"
  proof -
    note d = wf_Draining [OF that assms(1)]
    have "deliver parse handle (now, Settled rq) p = on_settled parse handle rq p"
      using d assms(2) by (simp add: deliver_def dispatch_def)
    then show ?thesis
      using d
      by (simp add: outcome_def finish_def run_Cons run_Nil handler_turn_fields on_timeout_fields)
  qed
  from t e c k r o f show ?thesis by blast
qed

theorem clean_exit_witness:
  "state_of (run parse_ok engine_ok [(0, Signal ''SIGINT'')]
      (start (map_of [(''PORT'', ''8080'')]) Fulfilled listen_ok)) = Draining \<and>
   \<not> due 40 (run parse_ok engine_ok [(0, Signal ''SIGINT'')]
      (start (map_of [(''PORT'', ''8080'')]) Fulfilled listen_ok)) \<and>
   outcome parse_ok engine_ok [(10000, Signal ''SIGTERM'')]
     (deliver parse_ok engine_ok (40, Closed)
       (run parse_ok engine_ok [(0, Signal ''SIGINT'')]
         (start (map_of [(''PORT'', ''8080'')]) Fulfilled listen_ok))) = Some (Code 0) \<and>
   wf (run parse_ok engine_ok [(0, Signal ''SIGINT'')]
      (start (map_of [(''PORT'', ''8080'')]) Fulfilled listen_ok)) \<and>
   outcome parse_ok engine_ok [(40, Settled \<lparr> http_method = ''GET'', url = ''/'' \<rparr>)]
     (run parse_ok engine_ok [(0, Signal ''SIGINT'')]
       (start (map_of [(''PORT'', ''8080'')]) Fulfilled listen_ok)) = Some (Code 1)"
proof -
  let ?p = "run parse_ok engine_ok [(0, Signal ''SIGINT'')]
      (start (map_of [(''PORT'', ''8080'')]) Fulfilled listen_ok)"
  have s: "exited ?p = None" "close_calls ?p = 1" "timers ?p = [10000]"
    by (simp_all add: run_def deliver_def dispatch_def due_def listened_def shutdown_def say_def
        start_def listen_ok_def listen_callback_def initial_def)
  have d: "state_of ?p = Draining" using s by (simp add: state_of_def)
  have n: "\<not> due 40 ?p" using s by (simp add: due_def)
  have w: "wf ?p" by (rule wf_run [OF wf_start])
  show ?thesis
    using d n w
      clean_exit [OF d n, of parse_ok engine_ok "[(10000, Signal ''SIGTERM'')]"
        "\<lparr> http_method = ''GET'', url = ''/'' \<rparr>"]
    by simp
qed





lemma due_unchanged:
  "due now (on_timeout p) = due now p"
  "due now (on_close p) = due now p"
  "due now (p\<lparr> exited := x \<rparr>) = due now p"
  by (simp_all add: due_def on_timeout_def on_close_def say_def exit_with_def)

lemma exit_fields:
  "hooked (on_timeout p) = hooked p" "server (on_timeout p) = server p"
  "close_calls (on_timeout p) = close_calls p" "timers (on_timeout p) = timers p"
  "hooked (on_close p) = hooked p" "server (on_close p) = server p"
  "close_calls (on_close p) = close_calls p"
  by (simp_all add: on_timeout_def on_close_def say_def exit_with_def)

text \<open>
  Two processes that differ only in what the exit status cannot depend on (the console,
  the exact number of close callbacks, timers that can never be the first to fire) stay
  so, event after event.
\<close>

lemma agree_deliver:
  assumes "exited p = exited q \<and> responses p = responses q \<and> hooked p = hooked q \<and>
           server p = server q \<and> (0 < close_calls p \<longleftrightarrow> 0 < close_calls q) \<and>
           (timers p = [] \<longleftrightarrow> timers q = []) \<and> (\<forall>t' \<ge> t. due t' p \<longleftrightarrow> due t' q)"
    and "t \<le> fst tev"
  shows "exited (deliver parse handle tev p) = exited (deliver parse handle tev q) \<and>
         responses (deliver parse handle tev p) = responses (deliver parse handle tev q) \<and>
         hooked (deliver parse handle tev p) = hooked (deliver parse handle tev q) \<and>
         server (deliver parse handle tev p) = server (deliver parse handle tev q) \<and>
         (0 < close_calls (deliver parse handle tev p)
            \<longleftrightarrow> 0 < close_calls (deliver parse handle tev q)) \<and>
         (timers (deliver parse handle tev p) = [] \<longleftrightarrow> timers (deliver parse handle tev q) = []) \<and>
         (\<forall>t' \<ge> t. due t' (deliver parse handle tev p) \<longleftrightarrow> due t' (deliver parse handle tev q))"
proof (cases "exited p")
  case (Some c)
  then have "deliver parse handle tev p = p" "deliver parse handle tev q = q"
    using assms(1) by (simp_all add: deliver_exited)
  then show ?thesis using assms(1) by simp
next
  case None
  then have nq: "exited q = None" using assms(1) by simp
  have same_due: "due (fst tev) p = due (fst tev) q" using assms by blast
  show ?thesis
  proof (cases "due (fst tev) p")
    case True
    then have "deliver parse handle tev p = on_timeout p" "deliver parse handle tev q = on_timeout q"
      using None nq same_due by (simp_all add: deliver_def)
    then show ?thesis
      using assms(1) by (simp add: on_timeout_fields exit_fields due_unchanged)
  next
    case False
    then have d: "deliver parse handle tev p = dispatch parse handle (fst tev) (snd tev) p"
      "deliver parse handle tev q = dispatch parse handle (fst tev) (snd tev) q"
      using None nq same_due by (simp_all add: deliver_def)
    show ?thesis
    proof (cases "snd tev")
      case (Signal s)
      have hq: "hooked q = hooked p" using assms(1) by simp
      show ?thesis
      proof (cases "hooked p \<and> listened s")
        case True
        then have "dispatch parse handle (fst tev) (Signal s) p = shutdown (fst tev) s p"
          and "dispatch parse handle (fst tev) (Signal s) q = shutdown (fst tev) s q"
          by (simp_all add: dispatch_def hq)
        then show ?thesis
          using assms(1) Signal by (simp add: d shutdown_fields due_shutdown)
      next
        case False
        then have "dispatch parse handle (fst tev) (Signal s) p = p\<lparr> exited := Some (BySignal s) \<rparr>"
          and "dispatch parse handle (fst tev) (Signal s) q = q\<lparr> exited := Some (BySignal s) \<rparr>"
          by (auto simp: dispatch_def hq)
        then show ?thesis
          using assms(1) Signal by (simp add: d due_unchanged)
      qed
    next
      case (Request rq)
      then show ?thesis
        using assms(1)
        by (cases "server p"; cases "parse (url rq)")
          (simp_all add: d dispatch_def on_request_def respond_fields due_respond)
    next
      case (Settled rq)
      then show ?thesis
        using assms(1)
        by (cases "server p"; cases "parse (url rq)")
          (simp_all add: d dispatch_def on_settled_def respond_fields due_respond)
    next
      case Closed
      then show ?thesis
        using assms(1)
        by (cases "0 < close_calls p")
          (simp_all add: d dispatch_def on_close_fields exit_fields due_unchanged)
    qed
  qed
qed

lemma agree_run:
  assumes "exited p = exited q \<and> responses p = responses q \<and> hooked p = hooked q \<and>
           server p = server q \<and> (0 < close_calls p \<longleftrightarrow> 0 < close_calls q) \<and>
           (timers p = [] \<longleftrightarrow> timers q = []) \<and> (\<forall>t' \<ge> t. due t' p \<longleftrightarrow> due t' q)"
    and "\<forall>tev \<in> set evs. t \<le> fst tev"
  shows "exited (run parse handle evs p) = exited (run parse handle evs q) \<and>
         responses (run parse handle evs p) = responses (run parse handle evs q) \<and>
         (timers (run parse handle evs p) = [] \<longleftrightarrow> timers (run parse handle evs q) = [])"
  using assms
proof (induction evs arbitrary: p q)
  case Nil
  then show ?case by (simp add: run_Nil)
next
  case (Cons tev evs)
  have t: "t \<le> fst tev" and rest: "\<forall>tev \<in> set evs. t \<le> fst tev"
    using Cons.prems(2) by simp_all
  show ?case
    unfolding run_Cons
    by (rule Cons.IH [OF agree_deliver [OF Cons.prems(1) t] rest])
qed

text \<open>
  C1, as the specification states it, fails: a second signal in the draining state is
  not a no-op. After SIGTERM at time 0 one close callback is registered and one timer is
  armed; SIGINT at time 5000 runs \<^verbatim>\<open>shutdown\<close> again, which calls \<^verbatim>\<open>server.close\<close> a
  second time and arms a second timer.
\<close>

theorem second_signal_counterexample:
  "state_of (run parse_ok engine_ok [(0, Signal ''SIGTERM'')]
      (start (map_of []) Fulfilled listen_ok)) = Draining \<and>
   close_calls (run parse_ok engine_ok [(0, Signal ''SIGTERM'')]
      (start (map_of []) Fulfilled listen_ok)) = 1 \<and>
   timers (run parse_ok engine_ok [(0, Signal ''SIGTERM'')]
      (start (map_of []) Fulfilled listen_ok)) = [10000] \<and>
   close_calls (run parse_ok engine_ok [(0, Signal ''SIGTERM''), (5000, Signal ''SIGINT'')]
      (start (map_of []) Fulfilled listen_ok)) = 2 \<and>
   timers (run parse_ok engine_ok [(0, Signal ''SIGTERM''), (5000, Signal ''SIGINT'')]
      (start (map_of []) Fulfilled listen_ok)) = [10000, 15000]"
  by (simp add: run_def deliver_def dispatch_def due_def listened_def shutdown_def say_def
      state_of_def start_def listen_ok_def listen_callback_def initial_def)

text \<open>
  C1, amended: a second termination signal (SIGTERM or SIGINT) received in the draining
  state, before the grace timer is due, is not a no-op: it runs \<^verbatim>\<open>shutdown\<close> once
  more, which logs the signal, calls \<^verbatim>\<open>server.close\<close> again (one more close callback)
  and arms one more timer, 10000 ms ahead. The timer armed by the first signal stays armed:
  the earliest deadline is unchanged and a timer is due after the second signal exactly
  when one was due without it, so the grace period is neither restarted nor extended. On
  the same later events (signals, requests, and the close notification if the transport
  sends it) the exit status of the process, like the responses it gives, is the same as
  without the second signal.
\<close>

theorem second_signal:
  assumes "wf p" and "state_of p = Draining" and "listened s" and "\<not> due t2 p"
    and "\<forall>d \<in> set (timers p). d \<le> t2 + 10000"
    and "\<forall>tev \<in> set evs. t2 \<le> fst tev"
  shows "console (deliver parse handle (t2, Signal s) p)
           = console p @ [(Log, s @ '' received: closing server'')] \<and>
         close_calls (deliver parse handle (t2, Signal s) p) = close_calls p + 1 \<and>
         timers (deliver parse handle (t2, Signal s) p) = timers p @ [t2 + 10000] \<and>
         Min (set (timers (deliver parse handle (t2, Signal s) p))) = Min (set (timers p)) \<and>
         (\<forall>t \<ge> t2. due t (deliver parse handle (t2, Signal s) p) \<longleftrightarrow> due t p) \<and>
         state_of (deliver parse handle (t2, Signal s) p) = Draining \<and>
         outcome parse handle evs (deliver parse handle (t2, Signal s) p)
           = outcome parse handle evs p \<and>
         responses (run parse handle evs (deliver parse handle (t2, Signal s) p))
           = responses (run parse handle evs p)"
proof -
  let ?q = "deliver parse handle (t2, Signal s) p"
  note d = wf_Draining [OF assms(1,2)]
  have q: "?q = shutdown t2 s p"
    using d assms(3,4) by (simp add: deliver_def dispatch_def)
  have a: "console ?q = console p @ [(Log, s @ '' received: closing server'')]"
    "close_calls ?q = close_calls p + 1" "timers ?q = timers p @ [t2 + 10000]"
    by (simp_all add: q shutdown_fields)
  have st: "state_of ?q = Draining" using d by (simp add: q state_of_def shutdown_fields)
  obtain d0 where d0: "d0 \<in> set (timers p)" using d by (cases "timers p") auto
  then have le: "d0 \<le> t2 + 10000" using assms(5) by blast
  have "Min (set (timers p)) \<le> d0" using d0 by simp
  then have "Min (set (timers p)) \<le> t2 + 10000" using le by simp
  moreover have "Min (set (timers ?q)) = min (t2 + 10000) (Min (set (timers p)))"
    using d0 by (simp add: a(3)) (subst Min_insert, auto)
  ultimately have m: "Min (set (timers ?q)) = Min (set (timers p))" by simp
  have due_eq: "\<forall>t' \<ge> t2. due t' p \<longleftrightarrow> due t' ?q"
  proof (intro allI impI)
    fix t' assume "t2 \<le> t'"
    have "t2 + 10000 \<le> t' \<Longrightarrow> due t' p"
      unfolding due_def using d0 le by (intro bexI [of _ d0]) simp_all
    then show "due t' p \<longleftrightarrow> due t' ?q" by (auto simp: q due_shutdown)
  qed
  have agree: "exited p = exited ?q \<and> responses p = responses ?q \<and> hooked p = hooked ?q \<and>
           server p = server ?q \<and> (0 < close_calls p \<longleftrightarrow> 0 < close_calls ?q) \<and>
           (timers p = [] \<longleftrightarrow> timers ?q = []) \<and> (\<forall>t' \<ge> t2. due t' p \<longleftrightarrow> due t' ?q)"
    using d due_eq by (simp add: q shutdown_fields)
  note r = agree_run [OF agree assms(6), of parse handle]
  have o: "outcome parse handle evs ?q = outcome parse handle evs p"
    using r by (simp add: outcome_def finish_def on_timeout_fields)
  have due_eq': "\<forall>t \<ge> t2. due t ?q \<longleftrightarrow> due t p" using due_eq by blast
  from a m st o r due_eq' show ?thesis by simp
qed

theorem second_signal_witness:
  "wf (run parse_ok engine_ok [(0, Signal ''SIGTERM'')] (start (map_of []) Fulfilled listen_ok)) \<and>
   state_of (run parse_ok engine_ok [(0, Signal ''SIGTERM'')]
      (start (map_of []) Fulfilled listen_ok)) = Draining \<and>
   listened ''SIGINT'' \<and>
   \<not> due 5000 (run parse_ok engine_ok [(0, Signal ''SIGTERM'')]
      (start (map_of []) Fulfilled listen_ok)) \<and>
   outcome parse_ok engine_ok [(6000, Closed)]
     (deliver parse_ok engine_ok (5000, Signal ''SIGINT'')
       (run parse_ok engine_ok [(0, Signal ''SIGTERM'')] (start (map_of []) Fulfilled listen_ok)))
     = outcome parse_ok engine_ok [(6000, Closed)]
       (run parse_ok engine_ok [(0, Signal ''SIGTERM'')] (start (map_of []) Fulfilled listen_ok))"
proof -
  let ?p = "run parse_ok engine_ok [(0, Signal ''SIGTERM'')] (start (map_of []) Fulfilled listen_ok)"
  have w: "wf ?p" by (rule wf_run [OF wf_start])
  have s: "exited ?p = None" "close_calls ?p = 1" "timers ?p = [10000]"
    by (simp_all add: run_def deliver_def dispatch_def due_def listened_def shutdown_def say_def
        start_def listen_ok_def listen_callback_def initial_def)
  have d: "state_of ?p = Draining" using s by (simp add: state_of_def)
  have l: "listened ''SIGINT''" by (simp add: listened_def)
  have n: "\<not> due 5000 ?p" using s by (simp add: due_def)
  have past: "\<forall>d \<in> set (timers ?p). d \<le> 5000 + 10000" using s by simp
  have ev: "\<forall>tev \<in> set [(6000::nat, Closed)]. 5000 \<le> fst tev" by simp
  note t = second_signal [OF w d l n past ev, of parse_ok engine_ok]
  from t have "outcome parse_ok engine_ok [(6000, Closed)]
     (deliver parse_ok engine_ok (5000, Signal ''SIGINT'') ?p)
     = outcome parse_ok engine_ok [(6000, Closed)] ?p" by blast
  then show ?thesis using w d l n by simp
qed

end
